theory Spec2Isabelle
  imports Main
begin

section \<open>The annotation script experiment.py\<close>

text \<open>
  The script reads \<^verbatim>\<open>experiment.csv\<close> with every cell as text, creates an answer
  buffer of 1000 machine integers holding -1, prompts the operator once per row and stores
  the entry in the buffer, and in a \<^verbatim>\<open>finally\<close> block names a label column after the
  column count, sets the buffer as that column and writes the table back to the same path.

  The embedding passes the state explicitly. The outside world is the operator's remaining
  input, the console output so far, the content of the file, and the number of times the
  file has been overwritten. Exceptions are values of \<open>error\<close>; a function that can raise
  returns \<open>error + 'a\<close> or an \<open>error option\<close> beside the state it leaves behind.
\<close>

subsection \<open>Data\<close>

datatype error =
    EmptyDataError
  | AttributeError
  | EOFError
  | KeyboardInterrupt
  | IndexError
  | ValueError_literal
  | OverflowError
  | ValueError_length

text \<open>
  A cell of a data frame: text, the missing value, or a 64-bit integer (the label column).
\<close>

datatype cell = Str string | NaN | Int64 int

text \<open>
  The file as the parser sees it: the names of the header line and, for every following
  line, its fields. A file is well formed when its header names are not empty and pairwise
  distinct and every record has one field per header name. Reading any other file,
  \<^verbatim>\<open>read_csv\<close> renames header names (an empty name to \<^verbatim>\<open>Unnamed: N\<close>, a repeated
  name to \<^verbatim>\<open>name.1\<close>) or fills and shifts fields; the model does not follow that, and
  what is proved below of the names and fields a run writes is proved of well-formed files.
\<close>

record csv =
  header :: "string list"
  records :: "string list list"

definition well_formed :: "csv \<Rightarrow> bool" where
  "well_formed f =
     ([] \<notin> set (header f) \<and> distinct (header f)
      \<and> list_all (\<lambda>r. length r = length (header f)) (records f))"

text \<open>
  A data frame with the default index \<open>0, 1, ...\<close>: the row at position \<open>i\<close> has label \<open>i\<close>.
\<close>

record dataframe =
  columns :: "string list"
  rows :: "cell list list"

text \<open>
  What the operator does at one prompt: types a line (a string of code points below 256),
  or interrupts the process. An exhausted input is the end of the standard input.
\<close>

datatype event = Entry string | Interrupt

record world =
  stdin :: "event list"
  stdout :: "string list"
  experiment_csv :: csv
  overwrites :: nat

subsection \<open>Text and integers\<close>

definition nl :: string where
  "nl = [char_of (10::nat)]"

definition digit_char :: "nat \<Rightarrow> char" where
  "digit_char d = ''0123456789'' ! d"

fun digits :: "nat \<Rightarrow> string" where
  "digits n = (if n < 10 then [digit_char n] else digits (n div 10) @ [digit_char (n mod 10)])"

declare digits.simps [simp del]

text \<open>\<^verbatim>\<open>str(n)\<close> of a Python integer, as an f-string formats it.\<close>

definition str_int :: "int \<Rightarrow> string" where
  "str_int n = (if n < 0 then CHR ''-'' # digits (nat (- n)) else digits (nat n))"

definition is_digit :: "char \<Rightarrow> bool" where
  "is_digit c = (48 \<le> (of_char c :: nat) \<and> (of_char c :: nat) \<le> 57)"

definition digit_val :: "char \<Rightarrow> nat" where
  "digit_val c = of_char c - 48"

text \<open>
  The characters \<^verbatim>\<open>int()\<close> strips at both ends of a string, among the code points
  below 256 of the model's strings: the ASCII white space 9 to 13 and 32, and the two
  spaces 133 and 160 beyond ASCII. The separators 28 to 31 are not stripped.
\<close>

definition is_space :: "char \<Rightarrow> bool" where
  "is_space c = ((of_char c :: nat) \<in> set [9, 10, 11, 12, 13, 32, 133, 160])"

text \<open>
  The digits of a decimal literal after its first digit: single underscores are allowed
  between two digits.
\<close>

fun literal :: "nat \<Rightarrow> string \<Rightarrow> nat option" where
  "literal acc [] = Some acc"
| "literal acc [c] = (if is_digit c then Some (10 * acc + digit_val c) else None)"
| "literal acc (c # d # cs) =
     (if is_digit c then literal (10 * acc + digit_val c) (d # cs)
      else if c = CHR ''_'' \<and> is_digit d then literal acc (d # cs)
      else None)"

definition py_digits :: "string \<Rightarrow> nat option" where
  "py_digits s = (case s of [] \<Rightarrow> None
     | c # cs \<Rightarrow> if is_digit c then literal (digit_val c) cs else None)"

text \<open>
  The interpreter's default limit on the number of digits of a string it converts to an
  integer (\<^verbatim>\<open>sys.int_info.default_max_str_digits\<close>).
\<close>

definition max_str_digits :: nat where
  "max_str_digits = 4300"

text \<open>
  \<^verbatim>\<open>int(s)\<close> of a string: \<open>None\<close> is the \<^verbatim>\<open>ValueError\<close>, raised for a string
  that is not a decimal literal and for one with more digits than the limit.
\<close>

definition py_int :: "string \<Rightarrow> int option" where
  "py_int s =
     (case rev (dropWhile is_space (rev (dropWhile is_space s))) of
        [] \<Rightarrow> None
      | c # cs \<Rightarrow>
          if max_str_digits < length (filter is_digit (c # cs)) then None
          else if c = CHR ''-'' then map_option (\<lambda>n. - int n) (py_digits cs)
          else if c = CHR ''+'' then map_option int (py_digits cs)
          else map_option int (py_digits (c # cs)))"

subsection \<open>The numpy buffer\<close>

text \<open>\<^verbatim>\<open>np.full(n, v)\<close>: an array of \<open>n\<close> 64-bit integers, all \<open>v\<close>.\<close>

definition np_full :: "nat \<Rightarrow> int \<Rightarrow> int list" where
  "np_full n v = replicate n v"

definition int64_range :: "int \<Rightarrow> bool" where
  "int64_range v = (- (2 ^ 63) \<le> v \<and> v < 2 ^ 63)"

text \<open>
  \<^verbatim>\<open>ans[i] = val\<close> with \<open>val\<close> a string: the index is checked first, then the string is
  converted by \<^verbatim>\<open>int\<close> and has to fit the 64-bit element.
\<close>

definition setitem :: "int list \<Rightarrow> nat \<Rightarrow> string \<Rightarrow> error + int list" where
  "setitem ans i val =
     (if length ans \<le> i then Inl IndexError
      else case py_int val of
             None \<Rightarrow> Inl ValueError_literal
           | Some v \<Rightarrow> if int64_range v then Inr (ans[i := v]) else Inl OverflowError)"

subsection \<open>The pandas operations\<close>

text \<open>The strings \<^verbatim>\<open>read_csv\<close> reads as the missing value by default.\<close>

definition na_values :: "string list" where
  "na_values = ['''', ''#N/A'', ''#N/A N/A'', ''#NA'', ''-1.#IND'', ''-1.#QNAN'', ''-NaN'',
     ''-nan'', ''1.#IND'', ''1.#QNAN'', ''<NA>'', ''N/A'', ''NA'', ''NULL'', ''NaN'', ''None'',
     ''n/a'', ''nan'', ''null'']"

definition parse_field :: "string \<Rightarrow> cell" where
  "parse_field s = (if s \<in> set na_values then NaN else Str s)"

text \<open>
  \<^verbatim>\<open>pd.read_csv(path, dtype=str)\<close>: a file with no header line has no columns to parse;
  the columns of a well-formed file are named as its header names them.
\<close>

definition read_csv :: "csv \<Rightarrow> error + dataframe" where
  "read_csv f =
     (if header f = [] then Inl EmptyDataError
      else Inr \<lparr>columns = header f, rows = map (map parse_field) (records f)\<rparr>)"

text \<open>\<^verbatim>\<open>edf.iterrows()\<close>: the rows with their index labels, in order.\<close>

definition iterrows :: "dataframe \<Rightarrow> (nat \<times> cell list) list" where
  "iterrows edf = zip [0..<length (rows edf)] (rows edf)"

text \<open>
  \<^verbatim>\<open>row.text\<close>: attribute access on a row finds the cell of the column of that name,
  and raises when there is no such column.
\<close>

definition getattr :: "string list \<Rightarrow> cell list \<Rightarrow> string \<Rightarrow> error + cell" where
  "getattr cols row name =
     (case map_of (zip cols row) name of None \<Rightarrow> Inl AttributeError | Some c \<Rightarrow> Inr c)"

fun format_cell :: "cell \<Rightarrow> string" where
  "format_cell (Str s) = s"
| "format_cell NaN = ''nan''"
| "format_cell (Int64 n) = str_int n"

text \<open>The position of a column name, \<open>None\<close> when it is not a column.\<close>

fun get_loc :: "string list \<Rightarrow> string \<Rightarrow> nat option" where
  "get_loc [] key = None"
| "get_loc (c # cs) key = (if c = key then Some 0 else map_option Suc (get_loc cs key))"

text \<open>
  A frame with no rows takes its index from a non-empty value assigned to it: the present
  columns are filled with the missing value.
\<close>

definition ensure_valid_index :: "dataframe \<Rightarrow> nat \<Rightarrow> dataframe" where
  "ensure_valid_index edf n =
     (if rows edf = [] \<and> 0 < n
      then edf\<lparr>rows := replicate n (replicate (length (columns edf)) NaN)\<rparr>
      else edf)"

text \<open>
  \<^verbatim>\<open>edf[col] = ans\<close> with \<open>ans\<close> an integer array: the lengths have to match; a name
  that is a column already has its column replaced, a new name is appended.
\<close>

definition setitem_df :: "dataframe \<Rightarrow> string \<Rightarrow> int list \<Rightarrow> error + dataframe" where
  "setitem_df edf col vals =
     (let edf1 = ensure_valid_index edf (length vals) in
      if length vals \<noteq> length (rows edf1) then Inl ValueError_length
      else case get_loc (columns edf1) col of
             None \<Rightarrow> Inr (edf1\<lparr>columns := columns edf1 @ [col],
                               rows := map2 (\<lambda>r v. r @ [Int64 v]) (rows edf1) vals\<rparr>)
           | Some p \<Rightarrow> Inr (edf1\<lparr>rows := map2 (\<lambda>r v. r[p := Int64 v]) (rows edf1) vals\<rparr>))"

fun render :: "cell \<Rightarrow> string" where
  "render (Str s) = s"
| "render NaN = ''''"
| "render (Int64 n) = str_int n"

text \<open>
  \<^verbatim>\<open>edf.to_csv(path, index=...)\<close>: with the index, an unnamed first column holds the
  row labels.
\<close>

definition to_csv :: "dataframe \<Rightarrow> bool \<Rightarrow> csv" where
  "to_csv edf index =
     \<lparr>header = (if index then [''''] else []) @ columns edf,
      records = map (\<lambda>(i, r). (if index then [str_int (int i)] else []) @ map render r)
                    (zip [0..<length (rows edf)] (rows edf))\<rparr>"

subsection \<open>The console\<close>

definition info :: "nat \<Rightarrow> string" where
  "info i = nl @ replicate 82 CHR ''-'' @ nl @ nl
     @ ''TWEET #'' @ str_int (int i + 1) @ nl @ nl
     @ ''Possible responses:'' @ nl @ nl
     @ ''Unpolitical/Undecided (0)'' @ nl
     @ ''Positive to Democrats (1)'' @ nl
     @ ''Negative to Democrats (2)'' @ nl
     @ ''Negative to Conservatives (3)'' @ nl
     @ ''Positive to Conservatives (4)'' @ nl"

definition prompt :: "cell \<Rightarrow> string" where
  "prompt t = ''Tweet:'' @ nl @ nl @ format_cell t @ nl @ nl @ ''Political Opinion (0-4): ''"

definition print :: "string \<Rightarrow> world \<Rightarrow> world" where
  "print s w = w\<lparr>stdout := stdout w @ [s @ nl]\<rparr>"

text \<open>
  \<^verbatim>\<open>input(p)\<close> writes the prompt and takes the operator's next event.
\<close>

definition input :: "string \<Rightarrow> world \<Rightarrow> (error + string) \<times> world" where
  "input p w =
     (case stdin w of
        [] \<Rightarrow> (Inl EOFError, w\<lparr>stdout := stdout w @ [p]\<rparr>)
      | Entry s # es \<Rightarrow> (Inr s, w\<lparr>stdin := es, stdout := stdout w @ [p]\<rparr>)
      | Interrupt # es \<Rightarrow> (Inl KeyboardInterrupt, w\<lparr>stdin := es, stdout := stdout w @ [p]\<rparr>))"

subsection \<open>The program\<close>

text \<open>One pass of the loop body for the row \<open>row\<close> with index label \<open>i\<close>.\<close>

definition body ::
  "string list \<Rightarrow> nat \<Rightarrow> cell list \<Rightarrow> int list \<Rightarrow> world \<Rightarrow> error option \<times> int list \<times> world"
where
  "body cols i row ans w =
     (let w1 = print (info i) w in
      case getattr cols row ''text'' of
        Inl e \<Rightarrow> (Some e, ans, w1)
      | Inr t \<Rightarrow>
          (case input (prompt t) w1 of
             (Inl e, w2) \<Rightarrow> (Some e, ans, w2)
           | (Inr val, w2) \<Rightarrow>
               (case setitem ans i val of
                  Inl e \<Rightarrow> (Some e, ans, w2)
                | Inr ans' \<Rightarrow> (None, ans', w2))))"

text \<open>The \<^verbatim>\<open>for\<close> loop: it stops at the first exception.\<close>

fun iterate ::
  "string list \<Rightarrow> (nat \<times> cell list) list \<Rightarrow> int list \<Rightarrow> world
     \<Rightarrow> error option \<times> int list \<times> world"
where
  "iterate cols [] ans w = (None, ans, w)"
| "iterate cols ((i, row) # rest) ans w =
     (case body cols i row ans w of
        (Some e, ans', w') \<Rightarrow> (Some e, ans', w')
      | (None, ans', w') \<Rightarrow> iterate cols rest ans' w')"

text \<open>The column name of line 24.\<close>

definition label_name :: "dataframe \<Rightarrow> string" where
  "label_name edf = ''test'' @ str_int (int (length (columns edf)) - 2)"

text \<open>The \<^verbatim>\<open>finally\<close> block.\<close>

definition finalize :: "dataframe \<Rightarrow> int list \<Rightarrow> world \<Rightarrow> error option \<times> world" where
  "finalize edf ans w =
     (let col = label_name edf in
      case setitem_df edf col ans of
        Inl e \<Rightarrow> (Some e, w)
      | Inr edf' \<Rightarrow> (None, w\<lparr>experiment_csv := to_csv edf' False, overwrites := Suc (overwrites w)\<rparr>))"

text \<open>Lines 6 to 22: the fresh answer buffer and the loop over the rows.\<close>

definition session :: "dataframe \<Rightarrow> world \<Rightarrow> error option \<times> int list \<times> world" where
  "session edf w = iterate (columns edf) (iterrows edf) (np_full 1000 (- 1)) w"

text \<open>
  The whole script. An exception of the \<^verbatim>\<open>finally\<close> block replaces the one of the
  loop; otherwise the loop's exception, if any, goes on after the block.
\<close>

definition run :: "world \<Rightarrow> error option \<times> world" where
  "run w =
     (case read_csv (experiment_csv w) of
        Inl e \<Rightarrow> (Some e, w)
      | Inr edf \<Rightarrow>
          (case session edf w of
             (r, ans, w1) \<Rightarrow>
               (case finalize edf ans w1 of
                  (Some e, w2) \<Rightarrow> (Some e, w2)
                | (None, w2) \<Rightarrow> (r, w2))))"

subsection \<open>Concrete sessions\<close>

text \<open>
  The scenarios the properties below are evaluated on: a file, the operator's events, an
  empty console and a file never overwritten so far.
\<close>

definition abc_world :: world where
  "abc_world = \<lparr>stdin = [Entry ''1'', Entry ''3'', Entry ''0''], stdout = [],
     experiment_csv = \<lparr>header = [''id'', ''text''],
        records = [[''1'', ''a''], [''2'', ''b''], [''3'', ''c'']]\<rparr>,
     overwrites = 0\<rparr>"

definition abc_frame :: dataframe where
  "abc_frame = \<lparr>columns = [''id'', ''text''],
     rows = [[Str ''1'', Str ''a''], [Str ''2'', Str ''b''], [Str ''3'', Str ''c'']]\<rparr>"

definition five_rows_world :: world where
  "five_rows_world = \<lparr>stdin = [Entry ''2'', Entry ''4'', Interrupt], stdout = [],
     experiment_csv = \<lparr>header = [''id'', ''text''],
        records = [[''1'', ''a''], [''2'', ''b''], [''3'', ''c''], [''4'', ''d''], [''5'', ''e'']]\<rparr>,
     overwrites = 0\<rparr>"

definition five_rows_frame :: dataframe where
  "five_rows_frame = \<lparr>columns = [''id'', ''text''],
     rows = [[Str ''1'', Str ''a''], [Str ''2'', Str ''b''], [Str ''3'', Str ''c''],
             [Str ''4'', Str ''d''], [Str ''5'', Str ''e'']]\<rparr>"

definition nonnumeric_world :: world where
  "nonnumeric_world = \<lparr>stdin = [Entry ''x''], stdout = [],
     experiment_csv = \<lparr>header = [''id'', ''text''],
        records = [[''1'', ''a''], [''2'', ''b''], [''3'', ''c'']]\<rparr>,
     overwrites = 0\<rparr>"


definition one_row_world :: world where
  "one_row_world = \<lparr>stdin = [Entry ''4''], stdout = [],
     experiment_csv = \<lparr>header = [''id'', ''text''], records = [[''1'', ''a'']]\<rparr>,
     overwrites = 0\<rparr>"

definition big_frame :: dataframe where
  "big_frame = \<lparr>columns = [''id'', ''text''], rows = replicate 1001 [Str ''1'', Str ''a'']\<rparr>"

definition full_world :: world where
  "full_world = \<lparr>stdin = [Entry ''3'', Interrupt], stdout = [],
     experiment_csv = \<lparr>header = [''id'', ''text''], records = replicate 1000 [''1'', ''a'']\<rparr>,
     overwrites = 0\<rparr>"

definition collision_world :: world where
  "collision_world = \<lparr>stdin = [], stdout = [],
     experiment_csv = \<lparr>header = [''id'', ''text'', ''test1''],
        records = replicate 1000 [''1'', ''a'', ''0'']\<rparr>,
     overwrites = 0\<rparr>"

definition overflow_world :: world where
  "overflow_world = \<lparr>stdin = [Entry ''9223372036854775808''], stdout = [],
     experiment_csv = \<lparr>header = [''id'', ''text''], records = [[''1'', ''a'']]\<rparr>,
     overwrites = 0\<rparr>"

definition relabel_world :: world where
  "relabel_world = \<lparr>stdin = [Entry ''3'', Interrupt], stdout = [],
     experiment_csv = \<lparr>header = [''id'', ''text'', ''test1''],
        records = replicate 1000 [''7'', ''b'', ''2'']\<rparr>,
     overwrites = 0\<rparr>"

subsection \<open>What a run reads and writes\<close>

text \<open>
  The frame \<^verbatim>\<open>read_csv\<close> returns for a well-formed file, and the file the
  \<^verbatim>\<open>finally\<close> block writes when the buffer has as many entries as the frame has
  rows: the label column is appended when its name is new and replaces the column of that
  name otherwise.
\<close>

definition loaded :: "csv \<Rightarrow> dataframe" where
  "loaded f = \<lparr>columns = header f, rows = map (map parse_field) (records f)\<rparr>"

definition saved :: "dataframe \<Rightarrow> int list \<Rightarrow> csv" where
  "saved edf ans =
     (case get_loc (columns edf) (label_name edf) of
        None \<Rightarrow> \<lparr>header = columns edf @ [label_name edf],
                  records = map2 (\<lambda>r v. map render r @ [str_int v]) (rows edf) ans\<rparr>
      | Some p \<Rightarrow> \<lparr>header = columns edf,
                  records = map2 (\<lambda>r v. (map render r)[p := str_int v]) (rows edf) ans\<rparr>)"

text \<open>
  Two runs in succession on the same file: the second run starts in the world the first
  run left, with the operator's events for the second session.
\<close>

definition run_twice :: "event list \<Rightarrow> world \<Rightarrow> error option \<times> world" where
  "run_twice evs w = run ((snd (run w))\<lparr>stdin := evs\<rparr>)"

section \<open>Properties\<close>

subsection \<open>The loop and the buffer\<close>

lemma setitem_length: "setitem ans i val = Inr ans' \<Longrightarrow> length ans' = length ans"
  by (auto simp: setitem_def split: if_splits option.splits)

lemma input_frame:
  "input p w = (x, w') \<Longrightarrow> experiment_csv w' = experiment_csv w \<and> overwrites w' = overwrites w"
  by (auto simp: input_def split: list.splits event.splits)

lemma body_length: "body cols i row ans w = (r, ans', w') \<Longrightarrow> length ans' = length ans"
  by (auto simp: body_def Let_def split: sum.splits prod.splits dest: setitem_length)

lemma body_frame:
  "body cols i row ans w = (r, ans', w') \<Longrightarrow>
     experiment_csv w' = experiment_csv w \<and> overwrites w' = overwrites w"
  by (auto simp: body_def Let_def print_def split: sum.splits prod.splits dest: input_frame)

lemma iterate_length: "iterate cols xs ans w = (r, ans', w') \<Longrightarrow> length ans' = length ans"
proof (induction xs arbitrary: ans w)
  case Nil
  then show ?case by simp
next
  case (Cons x xs)
  obtain i row where x: "x = (i, row)" by (cases x)
  obtain r1 ans1 w1 where b: "body cols i row ans w = (r1, ans1, w1)" by (cases "body cols i row ans w")
  show ?case
  proof (cases r1)
    case None
    with Cons.prems x b have "iterate cols xs ans1 w1 = (r, ans', w')" by simp
    then have "length ans' = length ans1" by (rule Cons.IH)
    with body_length [OF b] show ?thesis by simp
  next
    case (Some e)
    with Cons.prems x b have "ans' = ans1" by simp
    with body_length [OF b] show ?thesis by simp
  qed
qed

lemma iterate_frame:
  "iterate cols xs ans w = (r, ans', w') \<Longrightarrow>
     experiment_csv w' = experiment_csv w \<and> overwrites w' = overwrites w"
proof (induction xs arbitrary: ans w)
  case Nil
  then show ?case by simp
next
  case (Cons x xs)
  obtain i row where x: "x = (i, row)" by (cases x)
  obtain r1 ans1 w1 where b: "body cols i row ans w = (r1, ans1, w1)" by (cases "body cols i row ans w")
  show ?case
  proof (cases r1)
    case None
    with Cons.prems x b have "iterate cols xs ans1 w1 = (r, ans', w')" by simp
    then have "experiment_csv w' = experiment_csv w1 \<and> overwrites w' = overwrites w1" by (rule Cons.IH)
    with body_frame [OF b] show ?thesis by simp
  next
    case (Some e)
    with Cons.prems x b have "w' = w1" by simp
    with body_frame [OF b] show ?thesis by simp
  qed
qed

lemma body_out_of_bounds: "length ans \<le> i \<Longrightarrow> \<exists>e. fst (body cols i row ans w) = Some e"
  by (auto simp: body_def Let_def setitem_def split: sum.splits prod.splits)

lemma iterate_out_of_bounds:
  "(i, row) \<in> set xs \<Longrightarrow> length ans \<le> i \<Longrightarrow> \<exists>e. fst (iterate cols xs ans w) = Some e"
proof (induction xs arbitrary: ans w)
  case Nil
  then show ?case by simp
next
  case (Cons x xs)
  obtain j rw where x: "x = (j, rw)" by (cases x)
  obtain r1 ans1 w1 where b: "body cols j rw ans w = (r1, ans1, w1)" by (cases "body cols j rw ans w")
  show ?case
  proof (cases r1)
    case (Some e)
    with x b show ?thesis by simp
  next
    case None
    have len: "length ans1 = length ans" by (rule body_length [OF b])
    have "x \<noteq> (i, row)"
    proof
      assume "x = (i, row)"
      with x have "j = i" "rw = row" by simp_all
      with body_out_of_bounds [OF Cons.prems(2), of cols row w] b None show False by simp
    qed
    with Cons.prems(1) have "(i, row) \<in> set xs" by simp
    moreover from len Cons.prems(2) have "length ans1 \<le> i" by simp
    ultimately have "\<exists>e. fst (iterate cols xs ans1 w1) = Some e" by (rule Cons.IH)
    with x b None show ?thesis by simp
  qed
qed

subsection \<open>Setting a column and saving\<close>

lemma columns_ensure_valid_index [simp]: "columns (ensure_valid_index edf n) = columns edf"
  by (simp add: ensure_valid_index_def)

lemma get_loc_None: "get_loc cs k = None \<longleftrightarrow> k \<notin> set cs"
  by (induction cs) auto

lemma get_loc_Some: "get_loc cs k = Some p \<Longrightarrow> p < length cs \<and> cs ! p = k"
  by (induction cs arbitrary: p) (auto split: if_splits)

lemma setitem_df_mismatch:
  "rows edf \<noteq> [] \<Longrightarrow> length vals \<noteq> length (rows edf) \<Longrightarrow>
     setitem_df edf col vals = Inl ValueError_length"
  by (simp add: setitem_df_def ensure_valid_index_def)

lemma setitem_df_match:
  "length vals = length (rows edf) \<Longrightarrow>
     setitem_df edf col vals =
       (case get_loc (columns edf) col of
          None \<Rightarrow> Inr (edf\<lparr>columns := columns edf @ [col],
                            rows := map2 (\<lambda>r v. r @ [Int64 v]) (rows edf) vals\<rparr>)
        | Some p \<Rightarrow> Inr (edf\<lparr>rows := map2 (\<lambda>r v. r[p := Int64 v]) (rows edf) vals\<rparr>))"
  by (auto simp: setitem_df_def ensure_valid_index_def Let_def)

lemma session_frame:
  "session edf w = (r, ans, w1) \<Longrightarrow>
     length ans = 1000 \<and> experiment_csv w1 = experiment_csv w \<and> overwrites w1 = overwrites w"
  unfolding session_def
  using iterate_length [of "columns edf" "iterrows edf" "np_full 1000 (- 1)" w r ans w1]
    iterate_frame [of "columns edf" "iterrows edf" "np_full 1000 (- 1)" w r ans w1]
  by (simp add: np_full_def)

lemma run_saved:
  "read_csv (experiment_csv w) = Inr edf \<Longrightarrow> session edf w = (r, ans, w1) \<Longrightarrow>
   setitem_df edf (label_name edf) ans = Inr edf' \<Longrightarrow>
   run w = (r, w1\<lparr>experiment_csv := to_csv edf' False, overwrites := Suc (overwrites w1)\<rparr>)"
  by (simp add: run_def finalize_def)

lemma run_not_saved:
  "read_csv (experiment_csv w) = Inr edf \<Longrightarrow> session edf w = (r, ans, w1) \<Longrightarrow>
   setitem_df edf (label_name edf) ans = Inl e \<Longrightarrow> run w = (Some e, w1)"
  by (simp add: run_def finalize_def)

lemma map_zip_snd:
  "length xs = length ys \<Longrightarrow> map (\<lambda>(i, r). f r) (zip xs ys) = map f ys"
  by (induction xs ys rule: list_induct2) simp_all

lemma to_csv_no_index:
  "to_csv edf False = \<lparr>header = columns edf, records = map (map render) (rows edf)\<rparr>"
  by (simp add: to_csv_def map_zip_snd)

lemma str_int_neg1: "str_int (- 1) = ''-1''"
  by (simp add: str_int_def digits.simps digit_char_def)

lemma str_int_0: "str_int 0 = ''0''"
  by (simp add: str_int_def digits.simps digit_char_def)


lemma run_mismatch:
  assumes "header (experiment_csv w) \<noteq> []"
    and "length (records (experiment_csv w)) \<noteq> 0"
    and "length (records (experiment_csv w)) \<noteq> 1000"
  shows "fst (run w) = Some ValueError_length
       \<and> experiment_csv (snd (run w)) = experiment_csv w
       \<and> overwrites (snd (run w)) = overwrites w"
proof -
  define edf where "edf = \<lparr>columns = header (experiment_csv w),
     rows = map (map parse_field) (records (experiment_csv w))\<rparr>"
  have rd: "read_csv (experiment_csv w) = Inr edf"
    using assms(1) by (simp add: read_csv_def edf_def)
  obtain r ans w1 where s: "session edf w = (r, ans, w1)"
    by (cases "session edf w")
  note fr = session_frame [OF s]
  have "rows edf \<noteq> []" using assms(2) by (simp add: edf_def)
  moreover have "length ans \<noteq> length (rows edf)" using assms(3) fr by (simp add: edf_def)
  ultimately have "setitem_df edf (label_name edf) ans = Inl ValueError_length"
    by (rule setitem_df_mismatch)
  then have "run w = (Some ValueError_length, w1)"
    by (rule run_not_saved [OF rd s])
  with fr show ?thesis by simp
qed


subsection \<open>Evaluating the loop on concrete input\<close>

lemmas eval_defs = read_csv_def session_def iterrows_def np_full_def
      body_def Let_def getattr_def input_def print_def setitem_def py_int_def max_str_digits_def is_space_def
      py_digits_def is_digit_def digit_val_def int64_range_def parse_field_def na_values_def upt_rec

lemma abc_read: "read_csv (experiment_csv abc_world) = Inr abc_frame"
  by (simp add: abc_world_def abc_frame_def read_csv_def parse_field_def na_values_def)

lemma abc_session: "fst (session abc_frame abc_world) = None
   \<and> fst (snd (session abc_frame abc_world)) = (np_full 1000 (- 1))[0 := 1, 1 := 3, 2 := 0]"
  by (simp add: abc_world_def abc_frame_def eval_defs numeral_2_eq_2)

subsection \<open>One pass of the loop body\<close>





lemma session_over_1000:
  assumes "1000 < length (rows edf)"
  shows "\<exists>e. fst (session edf w) = Some e"
proof -
  have "iterrows edf ! 1000 = (1000, rows edf ! 1000)"
    using assms by (simp add: iterrows_def)
  moreover have "1000 < length (iterrows edf)" using assms by (simp add: iterrows_def)
  ultimately have "(1000, rows edf ! 1000) \<in> set (iterrows edf)"
    by (metis nth_mem)
  moreover have "length (np_full 1000 (- 1)) \<le> 1000" by (simp add: np_full_def)
  ultimately show ?thesis unfolding session_def by (rule iterate_out_of_bounds)
qed

lemma body_index_error:
  assumes "getattr cols row ''text'' = Inr t" and "stdin w = Entry val # es"
    and "length ans \<le> i"
  shows "body cols i row ans w =
     (Some IndexError, ans, w\<lparr>stdin := es, stdout := stdout w @ [info i @ nl, prompt t]\<rparr>)"
  using assms by (simp add: body_def Let_def input_def print_def setitem_def)

lemma body_stores:
  assumes "getattr cols row ''text'' = Inr t" and "stdin w = Entry val # es"
    and "i < length ans" and "py_int val = Some v" and "int64_range v"
  shows "body cols i row ans w =
     (None, ans[i := v], w\<lparr>stdin := es, stdout := stdout w @ [info i @ nl, prompt t]\<rparr>)"
  using assms by (simp add: body_def Let_def input_def print_def setitem_def)

lemma body_rejects:
  assumes "getattr cols row ''text'' = Inr t" and "stdin w = Entry val # es"
    and "i < length ans"
  shows "py_int val = None \<Longrightarrow> body cols i row ans w =
     (Some ValueError_literal, ans, w\<lparr>stdin := es, stdout := stdout w @ [info i @ nl, prompt t]\<rparr>)"
    and "py_int val = Some v \<Longrightarrow> \<not> int64_range v \<Longrightarrow> body cols i row ans w =
     (Some OverflowError, ans, w\<lparr>stdin := es, stdout := stdout w @ [info i @ nl, prompt t]\<rparr>)"
  using assms by (simp_all add: body_def Let_def input_def print_def setitem_def)

subsection \<open>Runs on a file of 1000 rows\<close>

lemma read_csv_loaded: "header f \<noteq> [] \<Longrightarrow> read_csv f = Inr (loaded f)"
  by (simp add: read_csv_def loaded_def)

lemma finalize_saved:
  assumes "length ans = length (rows edf)"
  shows "finalize edf ans w =
     (None, w\<lparr>experiment_csv := saved edf ans, overwrites := Suc (overwrites w)\<rparr>)"
  using assms
  by (simp add: finalize_def setitem_df_match to_csv_no_index saved_def
      comp_def case_prod_unfold map_update split: option.splits)

lemma run_1000:
  assumes "header (experiment_csv w) \<noteq> []" and "length (records (experiment_csv w)) = 1000"
  shows "run w = (case session (loaded (experiment_csv w)) w of
           (r, ans, w1) \<Rightarrow>
             (r, w1\<lparr>experiment_csv := saved (loaded (experiment_csv w)) ans,
                     overwrites := Suc (overwrites w)\<rparr>))"
proof -
  let ?edf = "loaded (experiment_csv w)"
  obtain r ans w1 where s: "session ?edf w = (r, ans, w1)" by (cases "session ?edf w")
  note fr = session_frame [OF s]
  have "length ans = length (rows ?edf)" using fr assms(2) by (simp add: loaded_def)
  then have "finalize ?edf ans w1 =
     (None, w1\<lparr>experiment_csv := saved ?edf ans, overwrites := Suc (overwrites w1)\<rparr>)"
    by (rule finalize_saved)
  then show ?thesis
    using read_csv_loaded [OF assms(1)] s fr by (simp add: run_def)
qed

lemma saved_header:
  "header (saved edf ans) =
     (if label_name edf \<in> set (columns edf) then columns edf else columns edf @ [label_name edf])"
proof (cases "get_loc (columns edf) (label_name edf)")
  case None
  then have "label_name edf \<notin> set (columns edf)" by (simp add: get_loc_None)
  with None show ?thesis by (simp add: saved_def)
next
  case (Some p)
  then have "label_name edf \<in> set (columns edf)" by (metis get_loc_Some nth_mem)
  with Some show ?thesis by (simp add: saved_def)
qed

lemma saved_length:
  "length (records (saved edf ans)) = min (length (rows edf)) (length ans)"
  by (simp add: saved_def split: option.splits)

lemma run_1000_shape:
  assumes "header (experiment_csv w) \<noteq> []" and "length (records (experiment_csv w)) = 1000"
  shows "header (experiment_csv (snd (run w))) =
           (if label_name (loaded (experiment_csv w)) \<in> set (header (experiment_csv w))
            then header (experiment_csv w)
            else header (experiment_csv w) @ [label_name (loaded (experiment_csv w))])"
    and "length (records (experiment_csv (snd (run w)))) = 1000"
    and "overwrites (snd (run w)) = Suc (overwrites w)"
proof -
  let ?edf = "loaded (experiment_csv w)"
  obtain r ans w1 where s: "session ?edf w = (r, ans, w1)" by (cases "session ?edf w")
  note fr = session_frame [OF s]
  have run: "run w = (r, w1\<lparr>experiment_csv := saved ?edf ans, overwrites := Suc (overwrites w)\<rparr>)"
    using run_1000 [OF assms] s by simp
  show "header (experiment_csv (snd (run w))) =
           (if label_name ?edf \<in> set (header (experiment_csv w))
            then header (experiment_csv w)
            else header (experiment_csv w) @ [label_name ?edf])"
    using run by (simp add: saved_header) (simp add: loaded_def)
  show "length (records (experiment_csv (snd (run w)))) = 1000"
    using run fr assms(2) by (simp add: saved_length loaded_def)
  show "overwrites (snd (run w)) = Suc (overwrites w)"
    using run by simp
qed

subsection \<open>The header a run writes\<close>

lemma setitem_df_columns:
  "setitem_df edf col vals = Inr edf' \<Longrightarrow>
     columns edf' = (if col \<in> set (columns edf) then columns edf else columns edf @ [col])"
proof (cases "get_loc (columns edf) col")
  case None
  assume a: "setitem_df edf col vals = Inr edf'"
  from None have "col \<notin> set (columns edf)" by (simp add: get_loc_None)
  with a None show ?thesis
    by (auto simp: setitem_df_def Let_def split: if_splits)
next
  case (Some p)
  assume a: "setitem_df edf col vals = Inr edf'"
  from Some have "col \<in> set (columns edf)" by (metis get_loc_Some nth_mem)
  with a Some show ?thesis
    by (auto simp: setitem_df_def Let_def split: if_splits)
qed

lemma run_header:
  assumes "overwrites (snd (run w)) \<noteq> overwrites w"
  shows "header (experiment_csv (snd (run w))) =
     (if ''test'' @ str_int (int (length (header (experiment_csv w))) - 2) \<in> set (header (experiment_csv w))
      then header (experiment_csv w)
      else header (experiment_csv w) @ [''test'' @ str_int (int (length (header (experiment_csv w))) - 2)])"
proof (cases "header (experiment_csv w) = []")
  case True
  then have "run w = (Some EmptyDataError, w)" by (simp add: run_def read_csv_def)
  with assms show ?thesis by simp
next
  case False
  let ?edf = "loaded (experiment_csv w)"
  have rd: "read_csv (experiment_csv w) = Inr ?edf" using False by (rule read_csv_loaded)
  obtain r ans w1 where s: "session ?edf w = (r, ans, w1)" by (cases "session ?edf w")
  note fr = session_frame [OF s]
  show ?thesis
  proof (cases "setitem_df ?edf (label_name ?edf) ans")
    case (Inl e)
    from run_not_saved [OF rd s Inl] fr assms show ?thesis by simp
  next
    case (Inr edf')
    have "columns edf' = (if label_name ?edf \<in> set (columns ?edf) then columns ?edf
        else columns ?edf @ [label_name ?edf])"
      using Inr by (rule setitem_df_columns)
    with run_saved [OF rd s Inr] show ?thesis
      by (simp add: to_csv_no_index) (simp add: loaded_def label_name_def)
  qed
qed

subsection \<open>Concrete conversions\<close>

lemma str_int_1: "str_int 1 = ''1''"
  by (simp add: str_int_def digits.simps digit_char_def)

lemma session_first_eof:
  assumes "rows edf = row # rest" and "getattr (columns edf) row ''text'' = Inr t"
    and "stdin w = []"
  shows "session edf w =
     (Some EOFError, np_full 1000 (- 1), w\<lparr>stdout := stdout w @ [info 0 @ nl, prompt t]\<rparr>)"
proof -
  have "iterrows edf = (0, row) # zip [1..<Suc (length rest)] rest"
    using assms(1) by (simp add: iterrows_def upt_rec)
  moreover have "body (columns edf) 0 row (np_full 1000 (- 1)) w =
     (Some EOFError, np_full 1000 (- 1), w\<lparr>stdout := stdout w @ [info 0 @ nl, prompt t]\<rparr>)"
    using assms(2,3) by (simp add: body_def Let_def input_def print_def)
  ultimately show ?thesis by (simp add: session_def)
qed

lemma replicate_1000: "replicate 1000 x = x # replicate 999 x"
  using replicate_Suc [of 999 x] by simp

lemma py_int_minus_12: "py_int ''-12'' = Some (- 12)"
  by (simp add: py_int_def max_str_digits_def is_space_def py_digits_def is_digit_def digit_val_def)

lemma py_int_x: "py_int ''x'' = None"
  by (simp add: py_int_def max_str_digits_def is_space_def py_digits_def is_digit_def digit_val_def)

lemma py_int_2_63: "py_int ''9223372036854775808'' = Some 9223372036854775808"
  by (simp add: py_int_def max_str_digits_def is_space_def py_digits_def is_digit_def digit_val_def)

subsection \<open>Decimal strings\<close>

lemma digit_char_in: "d < 10 \<Longrightarrow> digit_char d \<in> set ''0123456789''"
  unfolding digit_char_def by (rule nth_mem) simp

lemma digits_chars: "set (digits n) \<subseteq> set ''0123456789'' \<and> digits n \<noteq> []"
proof (induction n rule: digits.induct)
  case (1 n)
  show ?case
  proof (cases "n < 10")
    case True
    then show ?thesis using digit_char_in [of n] by (simp add: digits.simps [of n])
  next
    case False
    have "n mod 10 < 10" by simp
    then have "digit_char (n mod 10) \<in> set ''0123456789''" by (rule digit_char_in)
    with False "1.IH" show ?thesis by (simp add: digits.simps [of n])
  qed
qed

lemma str_int_chars: "set (str_int n) \<subseteq> set ''-0123456789'' \<and> str_int n \<noteq> []"
proof -
  have sub: "set ''0123456789'' \<subseteq> set ''-0123456789''"
    by (rule set_subset_Cons)
  show ?thesis
  proof (cases "n < 0")
    case True
    have "set (digits (nat (- n))) \<subseteq> set ''-0123456789''"
      using digits_chars [of "nat (- n)"] sub by (meson subset_trans)
    moreover have "CHR ''-'' \<in> set ''-0123456789''" by simp
    ultimately show ?thesis using True by (simp add: str_int_def)
  next
    case False
    have "set (digits (nat n)) \<subseteq> set ''-0123456789''"
      using digits_chars [of "nat n"] sub by (meson subset_trans)
    then show ?thesis using False digits_chars [of "nat n"] by (simp add: str_int_def)
  qed
qed

lemma str_int_not_na: "str_int n \<notin> set na_values"
proof
  assume a: "str_int n \<in> set na_values"
  have "\<And>s. s \<in> set na_values \<Longrightarrow> s = [] \<or> \<not> set s \<subseteq> set ''-0123456789''"
    by (auto simp: na_values_def)
  with a str_int_chars [of n] show False by blast
qed

lemma digit_val_digit_char: "d < 10 \<Longrightarrow> digit_val (digit_char d) = d"
proof -
  assume "d < 10"
  then have "d = 0 \<or> d = 1 \<or> d = 2 \<or> d = 3 \<or> d = 4 \<or> d = 5 \<or> d = 6 \<or> d = 7 \<or> d = 8 \<or> d = 9"
    by arith
  then show ?thesis
    by (elim disjE) (simp_all add: digit_char_def digit_val_def)
qed

lemma digits_value: "foldl (\<lambda>a c. 10 * a + digit_val c) 0 (digits n) = n"
proof (induction n rule: digits.induct)
  case (1 n)
  show ?case
  proof (cases "n < 10")
    case True
    then show ?thesis by (simp add: digits.simps [of n] digit_val_digit_char)
  next
    case False
    with "1.IH" show ?thesis
      by (simp add: digits.simps [of n] digit_val_digit_char)
  qed
qed

lemma digits_inj: "digits a = digits b \<Longrightarrow> a = b"
  by (metis digits_value)

lemma digits_no_minus: "CHR ''-'' # s \<noteq> digits n"
proof
  assume "CHR ''-'' # s = digits n"
  then have "CHR ''-'' \<in> set (digits n)" by (metis list.set_intros(1))
  with digits_chars [of n] show False by auto
qed

lemma str_int_inj: "str_int a = str_int b \<Longrightarrow> a = b"
proof -
  assume e: "str_int a = str_int b"
  consider "a < 0" "b < 0" | "a < 0" "0 \<le> b" | "0 \<le> a" "b < 0" | "0 \<le> a" "0 \<le> b"
    by linarith
  then show ?thesis
  proof cases
    case 1
    with e have "digits (nat (- a)) = digits (nat (- b))" by (simp add: str_int_def)
    then have "nat (- a) = nat (- b)" by (rule digits_inj)
    with 1 show ?thesis by simp
  next
    case 2
    with e digits_no_minus show ?thesis by (simp add: str_int_def)
  next
    case 3
    with e digits_no_minus [of "digits (nat (- b))" "nat a"] show ?thesis
      by (simp add: str_int_def)
  next
    case 4
    with e have "digits (nat a) = digits (nat b)" by (simp add: str_int_def)
    then have "nat a = nat b" by (rule digits_inj)
    with 4 show ?thesis by simp
  qed
qed

subsection \<open>Reading back a file the script wrote\<close>

lemma reread_field: "render (parse_field (render (parse_field s))) = render (parse_field s)"
  by (simp add: parse_field_def na_values_def)

lemma reread_label: "render (parse_field (str_int v)) = str_int v"
  using str_int_not_na [of v] by (simp add: parse_field_def)

lemma saved_new:
  assumes "label_name edf \<notin> set (columns edf)"
  shows "saved edf ans = \<lparr>header = columns edf @ [label_name edf],
            records = map2 (\<lambda>r v. map render r @ [str_int v]) (rows edf) ans\<rparr>"
  using assms by (simp add: saved_def get_loc_None [symmetric])

lemma reread_records:
  "map (map render) (map (map parse_field)
      (map2 (\<lambda>r v. map render r @ [str_int v]) (map (map parse_field) recs) ans))
   = map2 (\<lambda>r v. map render r @ [str_int v]) (map (map parse_field) recs) ans"
  by (auto simp: comp_def case_prod_unfold reread_field reread_label dest!: set_zip_leftD)

lemma map2_map_left: "map2 f (map g xs) ys = map2 (\<lambda>x y. f (g x) y) xs ys"
  by (induction xs arbitrary: ys) (auto simp: zip_Cons1 split: list.splits)

lemma run_twice_fresh:
  assumes h: "header (experiment_csv w) \<noteq> []"
    and n: "length (records (experiment_csv w)) = 1000"
    and f1: "''test'' @ str_int (int (length (header (experiment_csv w))) - 2)
               \<notin> set (header (experiment_csv w))"
    and f2: "''test'' @ str_int (int (length (header (experiment_csv w))) - 1)
               \<notin> set (header (experiment_csv w))"
  shows "header (experiment_csv (snd (run w))) =
           header (experiment_csv w) @ [''test'' @ str_int (int (length (header (experiment_csv w))) - 2)]"
    and "header (experiment_csv (snd (run_twice evs w))) =
           header (experiment_csv w)
             @ [''test'' @ str_int (int (length (header (experiment_csv w))) - 2),
                ''test'' @ str_int (int (length (header (experiment_csv w))) - 1)]"
    and "records (experiment_csv (snd (run_twice evs w))) =
           map2 (\<lambda>r v. r @ [str_int v]) (records (experiment_csv (snd (run w))))
             (fst (snd (session
                \<lparr>columns = header (experiment_csv (snd (run w))),
                 rows = map (map parse_field) (records (experiment_csv (snd (run w))))\<rparr>
                ((snd (run w))\<lparr>stdin := evs\<rparr>))))"
    and "overwrites (snd (run_twice evs w)) = overwrites w + 2"
proof -
  let ?h = "header (experiment_csv w)"
  let ?n1 = "''test'' @ str_int (int (length ?h) - 2)"
  let ?n2 = "''test'' @ str_int (int (length ?h) - 1)"
  let ?edf = "loaded (experiment_csv w)"
  obtain r ans w1 where s: "session ?edf w = (r, ans, w1)" by (cases "session ?edf w")
  note fr = session_frame [OF s]
  have ln1: "label_name ?edf = ?n1" by (simp add: label_name_def loaded_def)
  have new1: "label_name ?edf \<notin> set (columns ?edf)" using f1 ln1 by (simp add: loaded_def)
  have run1: "run w = (r, w1\<lparr>experiment_csv := saved ?edf ans, overwrites := Suc (overwrites w)\<rparr>)"
    using run_1000 [OF h n] s by simp
  have file1: "experiment_csv (snd (run w)) =
      \<lparr>header = ?h @ [?n1],
       records = map2 (\<lambda>r v. map render r @ [str_int v]) (map (map parse_field) (records (experiment_csv w))) ans\<rparr>"
    using run1 saved_new [OF new1, of ans] ln1 by (simp add: loaded_def)
  show h1: "header (experiment_csv (snd (run w))) = ?h @ [?n1]"
    using file1 by simp
  let ?w' = "(snd (run w))\<lparr>stdin := evs\<rparr>"
  let ?f1 = "experiment_csv (snd (run w))"
  have h': "header (experiment_csv ?w') \<noteq> []" using h1 by simp
  have n': "length (records (experiment_csv ?w')) = 1000"
    using file1 fr n by simp
  let ?edf1 = "loaded (experiment_csv ?w')"
  obtain r2 ans2 w2 where s2: "session ?edf1 ?w' = (r2, ans2, w2)" by (cases "session ?edf1 ?w'")
  have ln2: "label_name ?edf1 = ?n2"
    using h1 by (simp add: label_name_def loaded_def)
  have "str_int (int (length ?h) - 2) \<noteq> str_int (int (length ?h) - 1)"
    using str_int_inj [of "int (length ?h) - 2" "int (length ?h) - 1"] by auto
  then have ne: "?n1 \<noteq> ?n2" by simp
  have new2: "label_name ?edf1 \<notin> set (columns ?edf1)"
    using f2 ne h1 ln2 by (simp add: loaded_def)
  have run2: "run ?w' = (r2, w2\<lparr>experiment_csv := saved ?edf1 ans2, overwrites := Suc (overwrites ?w')\<rparr>)"
    using run_1000 [OF h' n'] s2 by simp
  have sv2: "saved ?edf1 ans2 = \<lparr>header = columns ?edf1 @ [label_name ?edf1],
            records = map2 (\<lambda>r v. map render r @ [str_int v]) (rows ?edf1) ans2\<rparr>"
    by (rule saved_new [OF new2])
  show "header (experiment_csv (snd (run_twice evs w))) = ?h @ [?n1, ?n2]"
    using run2 sv2 ln2 h1 by (simp add: run_twice_def loaded_def)
  have "map2 (\<lambda>r v. map render r @ [str_int v]) (rows ?edf1) ans2
        = map2 (\<lambda>r v. r @ [str_int v]) (map (map render) (rows ?edf1)) ans2"
    by (simp add: map2_map_left)
  also have "map (map render) (rows ?edf1) = records ?f1"
    using file1 reread_records [of "records (experiment_csv w)" ans]
    by (simp add: loaded_def)
  finally have recs: "map2 (\<lambda>r v. map render r @ [str_int v]) (rows ?edf1) ans2
        = map2 (\<lambda>r v. r @ [str_int v]) (records ?f1) ans2" .
  have "records (experiment_csv (snd (run_twice evs w))) = map2 (\<lambda>r v. r @ [str_int v]) (records ?f1) ans2"
    using run2 sv2 recs by (simp add: run_twice_def)
  moreover have "fst (snd (session
                \<lparr>columns = header ?f1, rows = map (map parse_field) (records ?f1)\<rparr> ?w')) = ans2"
    using s2 by (simp add: loaded_def)
  ultimately show "records (experiment_csv (snd (run_twice evs w))) =
           map2 (\<lambda>r v. r @ [str_int v]) (records ?f1)
             (fst (snd (session
                \<lparr>columns = header ?f1, rows = map (map parse_field) (records ?f1)\<rparr> ?w')))"
    by simp
  show "overwrites (snd (run_twice evs w)) = overwrites w + 2"
    using run2 run1 by (simp add: run_twice_def)
qed

lemma label_name_loaded:
  "label_name (loaded f) = ''test'' @ str_int (int (length (header f)) - 2)"
  by (simp add: label_name_def loaded_def)

subsection \<open>Labels entered before an interrupt, on a file of 1000 rows\<close>

text \<open>
  When the file has exactly 1000 rows, each with a text cell, and the operator enters
  N < 1000 values that convert to 64-bit integers and then interrupts, the loop leaves the
  N values in the first N places of the buffer and -1 in the others, and the run ends with
  the interrupt after the file has been overwritten once with that buffer as label column.
\<close>

lemma iterate_entries:
  assumes "\<forall>row \<in> set rws. \<exists>t. getattr cols row ''text'' = Inr t"
    and "length vals \<le> length rws"
    and "i0 + length vals \<le> length ans"
    and "\<forall>val \<in> set vals. \<exists>v. py_int val = Some v \<and> int64_range v"
    and "stdin w = map Entry vals @ rest"
  shows "\<exists>w'. stdin w' = rest
      \<and> iterate cols (enumerate i0 rws) ans w =
          iterate cols (enumerate (i0 + length vals) (drop (length vals) rws))
            (take i0 ans @ map (the \<circ> py_int) vals @ drop (i0 + length vals) ans) w'"
  using assms
proof (induction vals arbitrary: i0 rws ans w)
  case Nil
  then show ?case by (intro exI [of _ w]) simp
next
  case (Cons val vals)
  from Cons.prems(2) obtain row rws' where rws: "rws = row # rws'" by (cases rws) auto
  from Cons.prems(1) rws obtain t where t: "getattr cols row ''text'' = Inr t" by auto
  from Cons.prems(4) obtain v where v: "py_int val = Some v" "int64_range v" by auto
  from Cons.prems(3) have i0: "i0 < length ans" by simp
  from Cons.prems(5) have st: "stdin w = Entry val # (map Entry vals @ rest)" by simp
  let ?w1 = "w\<lparr>stdin := map Entry vals @ rest, stdout := stdout w @ [info i0 @ nl, prompt t]\<rparr>"
  have b: "body cols i0 row ans w = (None, ans[i0 := v], ?w1)"
    by (rule body_stores [OF t st i0 v])
  have step: "iterate cols (enumerate i0 rws) ans w =
      iterate cols (enumerate (Suc i0) rws') (ans[i0 := v]) ?w1"
    by (simp add: rws b)
  have "\<exists>w'. stdin w' = rest
      \<and> iterate cols (enumerate (Suc i0) rws') (ans[i0 := v]) ?w1 =
          iterate cols (enumerate (Suc i0 + length vals) (drop (length vals) rws'))
            (take (Suc i0) (ans[i0 := v]) @ map (the \<circ> py_int) vals
               @ drop (Suc i0 + length vals) (ans[i0 := v])) w'"
  proof (rule Cons.IH)
    show "\<forall>row \<in> set rws'. \<exists>t. getattr cols row ''text'' = Inr t"
      using Cons.prems(1) rws by simp
    show "length vals \<le> length rws'" using Cons.prems(2) rws by simp
    show "Suc i0 + length vals \<le> length (ans[i0 := v])" using Cons.prems(3) by simp
    show "\<forall>val \<in> set vals. \<exists>v. py_int val = Some v \<and> int64_range v"
      using Cons.prems(4) by simp
    show "stdin ?w1 = map Entry vals @ rest" by simp
  qed
  then obtain w' where w': "stdin w' = rest"
    and it: "iterate cols (enumerate (Suc i0) rws') (ans[i0 := v]) ?w1 =
          iterate cols (enumerate (Suc i0 + length vals) (drop (length vals) rws'))
            (take (Suc i0) (ans[i0 := v]) @ map (the \<circ> py_int) vals
               @ drop (Suc i0 + length vals) (ans[i0 := v])) w'"
    by blast
  have tk: "take (Suc i0) (ans[i0 := v]) = take i0 ans @ [v]"
    using i0 by (simp add: take_Suc_conv_app_nth)
  have dr: "drop (Suc i0 + length vals) (ans[i0 := v]) = drop (Suc i0 + length vals) ans"
    by simp
  have "iterate cols (enumerate i0 rws) ans w =
          iterate cols (enumerate (i0 + length (val # vals)) (drop (length (val # vals)) rws))
            (take i0 ans @ map (the \<circ> py_int) (val # vals) @ drop (i0 + length (val # vals)) ans) w'"
    using step it tk dr v(1) rws by simp
  with w' show ?case by blast
qed

lemma session_entries_then_interrupt:
  assumes "\<forall>row \<in> set (rows edf). \<exists>t. getattr (columns edf) row ''text'' = Inr t"
    and "length vals < length (rows edf)"
    and "length vals < 1000"
    and "\<forall>val \<in> set vals. \<exists>v. py_int val = Some v \<and> int64_range v"
    and "stdin w = map Entry vals @ Interrupt # rest"
  shows "fst (session edf w) = Some KeyboardInterrupt
       \<and> fst (snd (session edf w)) =
           map (the \<circ> py_int) vals @ replicate (1000 - length vals) (- 1)"
proof -
  let ?n = "length vals" and ?rws = "rows edf" and ?cols = "columns edf"
  let ?ans = "map (the \<circ> py_int) vals @ replicate (1000 - length vals) (- 1)"
  have le: "?n \<le> length ?rws" using assms(2) by simp
  have fit: "0 + ?n \<le> length (np_full 1000 (- 1))" using assms(3) by (simp add: np_full_def)
  from iterate_entries [OF assms(1) le fit assms(4,5)]
  obtain w' where w': "stdin w' = Interrupt # rest"
    and it: "iterate ?cols (enumerate 0 ?rws) (np_full 1000 (- 1)) w =
          iterate ?cols (enumerate (0 + ?n) (drop ?n ?rws))
            (take 0 (np_full 1000 (- 1)) @ map (the \<circ> py_int) vals
               @ drop (0 + ?n) (np_full 1000 (- 1))) w'"
    by blast
  have buf: "take 0 (np_full 1000 (- 1)) @ map (the \<circ> py_int) vals
               @ drop (0 + ?n) (np_full 1000 (- 1)) = ?ans"
    by (simp add: np_full_def)
  obtain row rest_rows where dr: "drop ?n ?rws = row # rest_rows"
    using assms(2) by (cases "drop ?n ?rws") auto
  have "row \<in> set ?rws" using dr by (metis in_set_dropD list.set_intros(1))
  with assms(1) obtain t where t: "getattr ?cols row ''text'' = Inr t" by auto
  have b: "body ?cols ?n row ?ans w' =
     (Some KeyboardInterrupt, ?ans, w'\<lparr>stdin := rest, stdout := stdout w' @ [info ?n @ nl, prompt t]\<rparr>)"
    using t w' by (simp add: body_def Let_def input_def print_def)
  have "session edf w = (Some KeyboardInterrupt, ?ans,
      w'\<lparr>stdin := rest, stdout := stdout w' @ [info ?n @ nl, prompt t]\<rparr>)"
    using it buf dr b by (simp add: session_def iterrows_def enumerate_eq_zip [of 0, simplified, symmetric])
  then show ?thesis by simp
qed


lemma labels_saved_after_interrupt:
  assumes "header (experiment_csv w) \<noteq> []"
    and "length (records (experiment_csv w)) = 1000"
    and "\<forall>row \<in> set (rows (loaded (experiment_csv w))).
           \<exists>t. getattr (header (experiment_csv w)) row ''text'' = Inr t"
    and "length vals < 1000"
    and "\<forall>val \<in> set vals. \<exists>v. py_int val = Some v \<and> int64_range v"
    and "stdin w = map Entry vals @ Interrupt # rest"
  shows "fst (run w) = Some KeyboardInterrupt
       \<and> experiment_csv (snd (run w)) =
           saved (loaded (experiment_csv w))
             (map (the \<circ> py_int) vals @ replicate (1000 - length vals) (- 1))
       \<and> overwrites (snd (run w)) = Suc (overwrites w)"
proof -
  let ?edf = "loaded (experiment_csv w)"
  have tx: "\<forall>row \<in> set (rows (loaded (experiment_csv w))).
      \<exists>t. getattr (columns (loaded (experiment_csv w))) row ''text'' = Inr t"
    using assms(3) by (simp add: loaded_def)
  have len: "length vals < length (rows ?edf)"
    using assms(2,4) by (simp add: loaded_def)
  note s = session_entries_then_interrupt [OF tx len assms(4,5,6)]
  obtain r ans w1 where e: "session ?edf w = (r, ans, w1)" by (cases "session ?edf w")
  with s have "r = Some KeyboardInterrupt"
    and "ans = map (the \<circ> py_int) vals @ replicate (1000 - length vals) (- 1)" by simp_all
  with run_1000 [OF assms(1,2)] e show ?thesis by simp
qed

lemma full_world_saved:
  "run full_world =
     (Some KeyboardInterrupt,
      full_world\<lparr>stdin := [],
        stdout := [info 0 @ nl, prompt (Str ''a''), info 1 @ nl, prompt (Str ''a'')],
        experiment_csv := \<lparr>header = [''id'', ''text'', ''test0''],
          records = [''1'', ''a'', ''3''] # replicate 999 [''1'', ''a'', ''-1'']\<rparr>,
        overwrites := 1\<rparr>)"
proof -
  let ?edf = "loaded (experiment_csv full_world)"
  let ?row = "[Str ''1'', Str ''a'']"
  have rows: "rows ?edf = ?row # ?row # replicate 998 ?row"
    using replicate_Suc [of 999 ?row] replicate_Suc [of 998 ?row]
    by (simp add: loaded_def full_world_def parse_field_def na_values_def)
  have cols: "columns ?edf = [''id'', ''text'']" by (simp add: loaded_def full_world_def)
  have py3: "py_int ''3'' = Some 3"
    by (simp add: py_int_def max_str_digits_def is_space_def py_digits_def is_digit_def digit_val_def)
  have "iterrows ?edf = enumerate 0 (rows ?edf)"
    by (simp add: iterrows_def enumerate_eq_zip)
  then have it: "iterrows ?edf = (0, ?row) # (1, ?row) # enumerate 2 (replicate 998 ?row)"
    by (simp add: rows numeral_2_eq_2)
  let ?w1 = "full_world\<lparr>stdin := [Interrupt],
      stdout := stdout full_world @ [info 0 @ nl, prompt (Str ''a'')]\<rparr>"
  have b0: "body [''id'', ''text''] 0 ?row (np_full 1000 (- 1)) full_world =
      (None, (np_full 1000 (- 1))[0 := 3], ?w1)"
    by (rule body_stores [OF _ _ _ py3])
      (simp_all add: getattr_def full_world_def np_full_def int64_range_def)
  have b1: "body [''id'', ''text''] 1 ?row ((np_full 1000 (- 1))[0 := 3]) ?w1 =
      (Some KeyboardInterrupt, (np_full 1000 (- 1))[0 := 3],
       ?w1\<lparr>stdin := [], stdout := stdout ?w1 @ [info 1 @ nl, prompt (Str ''a'')]\<rparr>)"
    by (simp add: body_def Let_def getattr_def input_def print_def)
  have s0: "session ?edf full_world =
     (Some KeyboardInterrupt, (np_full 1000 (- 1))[0 := 3],
      ?w1\<lparr>stdin := [], stdout := stdout ?w1 @ [info 1 @ nl, prompt (Str ''a'')]\<rparr>)"
    by (simp add: session_def it cols b0 b1 [unfolded One_nat_def])
  have w: "?w1\<lparr>stdin := [], stdout := stdout ?w1 @ [info 1 @ nl, prompt (Str ''a'')]\<rparr> =
      full_world\<lparr>stdin := [],
        stdout := [info 0 @ nl, prompt (Str ''a''), info 1 @ nl, prompt (Str ''a'')]\<rparr>"
    by (simp add: full_world_def)
  have s: "session ?edf full_world =
     (Some KeyboardInterrupt, (np_full 1000 (- 1))[0 := 3],
      full_world\<lparr>stdin := [],
        stdout := [info 0 @ nl, prompt (Str ''a''), info 1 @ nl, prompt (Str ''a'')]\<rparr>)"
    by (simp only: s0 w)
  have name: "label_name ?edf = ''test0''"
    by (simp add: label_name_def cols str_int_0)
  have buf: "(np_full 1000 (- 1))[0 := 3] = 3 # replicate 999 (- 1)"
    using replicate_Suc [of 999 "- 1 :: int"] by (simp add: np_full_def)
  have str3: "str_int 3 = ''3''" by (simp add: str_int_def digits.simps digit_char_def)
  have sv: "saved ?edf ((np_full 1000 (- 1))[0 := 3]) =
      \<lparr>header = [''id'', ''text'', ''test0''],
       records = [''1'', ''a'', ''3''] # replicate 999 [''1'', ''a'', ''-1'']\<rparr>"
    unfolding saved_def name buf
    using replicate_Suc [of 999 "[''1'', ''a'']"]
    by (simp add: loaded_def full_world_def parse_field_def na_values_def str_int_neg1 str3)
  have "run full_world = (case session ?edf full_world of
           (r, ans, w1) \<Rightarrow>
             (r, w1\<lparr>experiment_csv := saved ?edf ans,
                     overwrites := Suc (overwrites full_world)\<rparr>))"
    by (rule run_1000) (simp_all add: full_world_def)
  then show ?thesis
    unfolding s by (simp add: sv) (simp add: full_world_def)
qed

subsection \<open>What the conversion of an entry accepts\<close>

text \<open>
  White space at both ends is stripped, the separator 28 is not; a string of more than 4300
  digits is not converted.
\<close>

lemma py_int_spaces: "py_int '' 7 '' = Some 7"
  by (simp add: py_int_def max_str_digits_def is_space_def py_digits_def is_digit_def digit_val_def)

lemma py_int_nbsp: "py_int (CHR 0xA0 # ''5'') = Some 5"
  by (simp add: py_int_def max_str_digits_def is_space_def py_digits_def is_digit_def digit_val_def)

lemma py_int_separator: "py_int (CHR 0x1C # ''5'') = None"
  by (simp add: py_int_def max_str_digits_def is_space_def py_digits_def is_digit_def digit_val_def)

lemma digit_not_space: "is_digit c \<Longrightarrow> \<not> is_space c"
  by (auto simp: is_digit_def is_space_def)

lemma py_int_too_many_digits:
  assumes "max_str_digits < length s" and "\<forall>c \<in> set s. is_digit c"
  shows "py_int s = None"
proof -
  from assms(1) have ne: "s \<noteq> []" by auto
  then have "\<not> is_space (hd s)" using assms(2) by (simp add: digit_not_space)
  with ne have a: "dropWhile is_space s = s" by (cases s) simp_all
  from ne have "\<not> is_space (hd (rev s))" using assms(2) by (simp add: digit_not_space hd_rev)
  with ne have "dropWhile is_space (rev s) = rev s" by (cases "rev s") simp_all
  with a have st: "rev (dropWhile is_space (rev (dropWhile is_space s))) = s" by simp
  have f: "filter is_digit s = s" using assms(2) by simp
  obtain c cs where s: "s = c # cs" using ne by (cases s) auto
  have "py_int s = (case s of [] \<Rightarrow> None
      | c # cs \<Rightarrow>
          if max_str_digits < length (filter is_digit (c # cs)) then None
          else if c = CHR ''-'' then map_option (\<lambda>n. - int n) (py_digits cs)
          else if c = CHR ''+'' then map_option int (py_digits cs)
          else map_option int (py_digits (c # cs)))"
    unfolding py_int_def st ..
  also have "\<dots> = None"
    using assms(1) f unfolding s by simp
  finally show ?thesis .
qed

lemma py_int_4301: "py_int (replicate 4301 CHR ''1'') = None"
  by (rule py_int_too_many_digits) (simp_all add: max_str_digits_def is_digit_def)

subsection \<open>The decimal form and the header written\<close>

lemma digit_char_zero: "d < 10 \<Longrightarrow> digit_char d = CHR ''0'' \<Longrightarrow> d = 0"
proof -
  assume "d < 10" and z: "digit_char d = CHR ''0''"
  then have "d = 0 \<or> d = 1 \<or> d = 2 \<or> d = 3 \<or> d = 4 \<or> d = 5 \<or> d = 6 \<or> d = 7 \<or> d = 8 \<or> d = 9"
    by arith
  with z show ?thesis
    by (elim disjE) (simp_all add: digit_char_def)
qed

lemma digits_no_leading_zero: "hd (digits n) = CHR ''0'' \<Longrightarrow> n = 0"
proof (induction n rule: digits.induct)
  case (1 n)
  show ?case
  proof (cases "n < 10")
    case True
    with "1.prems" show ?thesis by (simp add: digits.simps [of n] digit_char_zero)
  next
    case False
    have "digits (n div 10) \<noteq> []" using digits_chars [of "n div 10"] by simp
    with False "1.prems" have "hd (digits (n div 10)) = CHR ''0''"
      by (simp add: digits.simps [of n])
    with False "1.IH" have "n div 10 = 0" by simp
    with False show ?thesis by simp
  qed
qed

lemma digits_value_of_char: "foldl (\<lambda>a c. 10 * a + (of_char c - 48)) 0 (digits n) = n"
  using digits_value [of n] by (simp add: digit_val_def)

lemma str_int_decimal:
  "(0 \<le> n \<longrightarrow> str_int n \<noteq> [] \<and> set (str_int n) \<subseteq> set ''0123456789''
        \<and> foldl (\<lambda>a c. 10 * a + (of_char c - 48)) 0 (str_int n) = nat n
        \<and> (hd (str_int n) = CHR ''0'' \<longrightarrow> n = 0))
   \<and> (n < 0 \<longrightarrow> str_int n = CHR ''-'' # str_int (- n))"
proof -
  have "0 \<le> n \<longrightarrow> str_int n \<noteq> [] \<and> set (str_int n) \<subseteq> set ''0123456789''
        \<and> foldl (\<lambda>a c. 10 * a + (of_char c - 48)) 0 (str_int n) = nat n
        \<and> (hd (str_int n) = CHR ''0'' \<longrightarrow> n = 0)"
  proof
    assume n: "0 \<le> n"
    then have s: "str_int n = digits (nat n)" by (simp add: str_int_def)
    have "hd (digits (nat n)) = CHR ''0'' \<longrightarrow> n = 0"
      using digits_no_leading_zero [of "nat n"] n by auto
    then show "str_int n \<noteq> [] \<and> set (str_int n) \<subseteq> set ''0123456789''
        \<and> foldl (\<lambda>a c. 10 * a + (of_char c - 48)) 0 (str_int n) = nat n
        \<and> (hd (str_int n) = CHR ''0'' \<longrightarrow> n = 0)"
      unfolding s using digits_chars [of "nat n"] digits_value_of_char [of "nat n"] by blast
  qed
  moreover have "n < 0 \<longrightarrow> str_int n = CHR ''-'' # str_int (- n)"
    by (simp add: str_int_def)
  ultimately show ?thesis by blast
qed

lemma str_int_12: "str_int 12 = ''12''"
  by (simp add: str_int_def digits.simps digit_char_def)

lemma written_header:
  assumes "overwrites (snd (run w)) \<noteq> overwrites w"
  shows "''test'' @ str_int (int (length (header (experiment_csv w))) - 2)
           \<in> set (header (experiment_csv (snd (run w))))"
    and "length (header (experiment_csv (snd (run w)))) =
           (if ''test'' @ str_int (int (length (header (experiment_csv w))) - 2)
                 \<in> set (header (experiment_csv w))
            then length (header (experiment_csv w))
            else Suc (length (header (experiment_csv w))))"
    and "''test'' @ str_int (int (length (header (experiment_csv w))) - 2)
           \<notin> set (header (experiment_csv w)) \<Longrightarrow>
         last (header (experiment_csv (snd (run w)))) =
           ''test'' @ str_int (int (length (header (experiment_csv w))) - 2)"
  using run_header [OF assms] by (simp_all split: if_splits)

subsection \<open>The answer buffer\<close>



text \<open>
  C7. A frame with more than 1000 rows has a row with index 1000, and its loop never
  completes: the session always ends with an exception. Storing any entry at index 1000 of
  a buffer of 1000 entries raises the index error, and the pass of the loop body for that
  row ends with it, the buffer unchanged.
\<close>

theorem buffer_overrun:
  "(1000 < length (rows edf) \<longrightarrow>
      iterrows edf ! 1000 = (1000, rows edf ! 1000) \<and> (\<exists>e. fst (session edf w) = Some e))
   \<and> (length ans = 1000 \<longrightarrow> setitem ans 1000 val = Inl IndexError)
   \<and> (length ans = 1000 \<and> getattr cols row ''text'' = Inr t \<and> stdin w' = Entry val # es \<longrightarrow>
        body cols 1000 row ans w' =
          (Some IndexError, ans, w'\<lparr>stdin := es, stdout := stdout w' @ [info 1000 @ nl, prompt t]\<rparr>))"
proof -
  have "1000 < length (rows edf) \<longrightarrow>
      iterrows edf ! 1000 = (1000, rows edf ! 1000) \<and> (\<exists>e. fst (session edf w) = Some e)"
    using session_over_1000 [of edf w] by (simp add: iterrows_def)
  moreover have "length ans = 1000 \<longrightarrow> setitem ans 1000 val = Inl IndexError"
    by (simp add: setitem_def)
  moreover have "length ans = 1000 \<and> getattr cols row ''text'' = Inr t \<and> stdin w' = Entry val # es \<longrightarrow>
        body cols 1000 row ans w' =
          (Some IndexError, ans, w'\<lparr>stdin := es, stdout := stdout w' @ [info 1000 @ nl, prompt t]\<rparr>)"
    using body_index_error [of cols row t w' val es ans 1000] by simp
  ultimately show ?thesis by blast
qed

theorem buffer_overrun_witness:
  "1000 < length (rows big_frame)
   \<and> iterrows big_frame ! 1000 = (1000, rows big_frame ! 1000)
   \<and> (\<exists>e. fst (session big_frame one_row_world) = Some e)
   \<and> length (np_full 1000 (- 1)) = 1000
   \<and> setitem (np_full 1000 (- 1)) 1000 ''4'' = Inl IndexError
   \<and> getattr [''id'', ''text''] [Str ''1'', Str ''a''] ''text'' = Inr (Str ''a'')
   \<and> stdin one_row_world = Entry ''4'' # []
   \<and> body [''id'', ''text''] 1000 [Str ''1'', Str ''a''] (np_full 1000 (- 1)) one_row_world =
       (Some IndexError, np_full 1000 (- 1),
        one_row_world\<lparr>stdin := [], stdout := stdout one_row_world @ [info 1000 @ nl, prompt (Str ''a'')]\<rparr>)"
  using buffer_overrun [of big_frame one_row_world "np_full 1000 (- 1)" "''4''"
      "[''id'', ''text'']" "[Str ''1'', Str ''a'']" "Str ''a''" one_row_world "[]"]
  by (simp add: big_frame_def one_row_world_def np_full_def getattr_def)

subsection \<open>Storing an entry\<close>

text \<open>
  C9, as stated, any entry that coerces to an integer is stored unchanged. The buffer holds
  64-bit integers: the entry 9223372036854775808 is an integer for \<^verbatim>\<open>int\<close>, does not
  fit the element, and the store raises the overflow error, leaving the buffer as it was
  and ending the loop.
\<close>

theorem entry_beyond_int64_not_stored:
  "py_int ''9223372036854775808'' = Some 9223372036854775808
   \<and> read_csv (experiment_csv overflow_world) =
       Inr \<lparr>columns = [''id'', ''text''], rows = [[Str ''1'', Str ''a'']]\<rparr>
   \<and> session \<lparr>columns = [''id'', ''text''], rows = [[Str ''1'', Str ''a'']]\<rparr> overflow_world =
       (Some OverflowError, np_full 1000 (- 1),
        overflow_world\<lparr>stdin := [], stdout := [info 0 @ nl, prompt (Str ''a'')]\<rparr>)"
proof -
  have "read_csv (experiment_csv overflow_world) =
       Inr \<lparr>columns = [''id'', ''text''], rows = [[Str ''1'', Str ''a'']]\<rparr>"
    by (simp add: overflow_world_def read_csv_def parse_field_def na_values_def)
  moreover have "body [''id'', ''text''] 0 [Str ''1'', Str ''a''] (np_full 1000 (- 1)) overflow_world =
     (Some OverflowError, np_full 1000 (- 1),
      overflow_world\<lparr>stdin := [], stdout := stdout overflow_world @ [info 0 @ nl, prompt (Str ''a'')]\<rparr>)"
    by (rule body_rejects(2) [OF _ _ _ py_int_2_63])
      (simp_all add: getattr_def overflow_world_def np_full_def int64_range_def)
  then have "session \<lparr>columns = [''id'', ''text''], rows = [[Str ''1'', Str ''a'']]\<rparr> overflow_world =
       (Some OverflowError, np_full 1000 (- 1),
        overflow_world\<lparr>stdin := [], stdout := [info 0 @ nl, prompt (Str ''a'')]\<rparr>)"
    by (simp add: session_def iterrows_def) (simp add: overflow_world_def)
  ultimately show ?thesis using py_int_2_63 by simp
qed

text \<open>
  C9, amended: no validation beyond the integer coercion is performed. At a row whose
  position is inside the buffer, an entry that \<^verbatim>\<open>int\<close> converts to an integer of the
  signed 64-bit range is stored unchanged at the row's position, whatever its value, and
  the loop goes on with the next row; an entry that is not converted (not a decimal
  literal, or one of more than 4300 digits), or is converted to an integer outside that
  range, ends the loop with the error, the buffer unchanged. In each case the row is
  prompted for once and one event of the input is consumed.
\<close>

theorem entry_stored_unchanged:
  "(getattr cols row ''text'' = Inr t \<and> stdin w = Entry val # es \<and> i < length ans
      \<and> py_int val = Some v \<and> int64_range v \<longrightarrow>
      iterate cols ((i, row) # rest) ans w =
        iterate cols rest (ans[i := v])
          (w\<lparr>stdin := es, stdout := stdout w @ [info i @ nl, prompt t]\<rparr>))
   \<and> (getattr cols row ''text'' = Inr t \<and> stdin w = Entry val # es \<and> i < length ans
      \<and> py_int val = None \<longrightarrow>
      iterate cols ((i, row) # rest) ans w =
        (Some ValueError_literal, ans,
         w\<lparr>stdin := es, stdout := stdout w @ [info i @ nl, prompt t]\<rparr>))
   \<and> (getattr cols row ''text'' = Inr t \<and> stdin w = Entry val # es \<and> i < length ans
      \<and> py_int val = Some v \<and> \<not> int64_range v \<longrightarrow>
      iterate cols ((i, row) # rest) ans w =
        (Some OverflowError, ans,
         w\<lparr>stdin := es, stdout := stdout w @ [info i @ nl, prompt t]\<rparr>))"
  using body_stores [of cols row t w val es i ans v]
    body_rejects(1) [of cols row t w val es i ans]
    body_rejects(2) [of cols row t w val es i ans v]
  by simp

theorem entry_stored_unchanged_witness:
  "getattr [''id'', ''text''] [Str ''1'', Str ''a''] ''text'' = Inr (Str ''a'')
   \<and> (0::nat) < length (np_full 1000 (- 1))
   \<and> py_int ''-12'' = Some (- 12) \<and> int64_range (- 12)
   \<and> iterate [''id'', ''text''] [(0, [Str ''1'', Str ''a''])] (np_full 1000 (- 1))
        (one_row_world\<lparr>stdin := [Entry ''-12'']\<rparr>) =
       (None, (np_full 1000 (- 1))[0 := - 12],
        one_row_world\<lparr>stdin := [], stdout := [info 0 @ nl, prompt (Str ''a'')]\<rparr>)
   \<and> py_int ''x'' = None
   \<and> iterate [''id'', ''text''] [(0, [Str ''1'', Str ''a''])] (np_full 1000 (- 1))
        nonnumeric_world =
       (Some ValueError_literal, np_full 1000 (- 1),
        nonnumeric_world\<lparr>stdin := [], stdout := [info 0 @ nl, prompt (Str ''a'')]\<rparr>)
   \<and> py_int ''9223372036854775808'' = Some 9223372036854775808
   \<and> \<not> int64_range 9223372036854775808
   \<and> iterate [''id'', ''text''] [(0, [Str ''1'', Str ''a''])] (np_full 1000 (- 1))
        overflow_world =
       (Some OverflowError, np_full 1000 (- 1),
        overflow_world\<lparr>stdin := [], stdout := [info 0 @ nl, prompt (Str ''a'')]\<rparr>)
   \<and> py_int (CHR 0x1C # ''5'') = None
   \<and> iterate [''id'', ''text''] [(0, [Str ''1'', Str ''a''])] (np_full 1000 (- 1))
        (one_row_world\<lparr>stdin := [Entry (CHR 0x1C # ''5'')]\<rparr>) =
       (Some ValueError_literal, np_full 1000 (- 1),
        one_row_world\<lparr>stdin := [], stdout := [info 0 @ nl, prompt (Str ''a'')]\<rparr>)
   \<and> py_int (replicate 4301 CHR ''1'') = None
   \<and> iterate [''id'', ''text''] [(0, [Str ''1'', Str ''a''])] (np_full 1000 (- 1))
        (one_row_world\<lparr>stdin := [Entry (replicate 4301 CHR ''1'')]\<rparr>) =
       (Some ValueError_literal, np_full 1000 (- 1),
        one_row_world\<lparr>stdin := [], stdout := [info 0 @ nl, prompt (Str ''a'')]\<rparr>)"
proof -
  let ?cols = "[''id'', ''text'']" and ?row = "[Str ''1'', Str ''a'']"
  let ?ans = "np_full 1000 (- 1)"
  have g: "getattr ?cols ?row ''text'' = Inr (Str ''a'')" by (simp add: getattr_def)
  have l: "(0::nat) < length ?ans" by (simp add: np_full_def)
  have r1: "int64_range (- 12)" by (simp add: int64_range_def)
  have r3: "\<not> int64_range 9223372036854775808" by (simp add: int64_range_def)
  have a: "iterate ?cols [(0, ?row)] ?ans (one_row_world\<lparr>stdin := [Entry ''-12'']\<rparr>) =
       (None, ?ans[0 := - 12],
        one_row_world\<lparr>stdin := [], stdout := [info 0 @ nl, prompt (Str ''a'')]\<rparr>)"
    using entry_stored_unchanged [of ?cols ?row "Str ''a''" "one_row_world\<lparr>stdin := [Entry ''-12'']\<rparr>"
        "''-12''" "[]" 0 ?ans "- 12" "[]"] g l r1 py_int_minus_12
    by (simp add: one_row_world_def)
  have b: "iterate ?cols [(0, ?row)] ?ans nonnumeric_world =
       (Some ValueError_literal, ?ans,
        nonnumeric_world\<lparr>stdin := [], stdout := [info 0 @ nl, prompt (Str ''a'')]\<rparr>)"
    using entry_stored_unchanged [of ?cols ?row "Str ''a''" nonnumeric_world
        "''x''" "[]" 0 ?ans _ "[]"] g l py_int_x
    by (simp add: nonnumeric_world_def)
  have c: "iterate ?cols [(0, ?row)] ?ans overflow_world =
       (Some OverflowError, ?ans,
        overflow_world\<lparr>stdin := [], stdout := [info 0 @ nl, prompt (Str ''a'')]\<rparr>)"
    using entry_stored_unchanged [of ?cols ?row "Str ''a''" overflow_world
        "''9223372036854775808''" "[]" 0 ?ans 9223372036854775808 "[]"] g l r3 py_int_2_63
    by (simp add: overflow_world_def)
  have d: "iterate ?cols [(0, ?row)] ?ans (one_row_world\<lparr>stdin := [Entry (CHR 0x1C # ''5'')]\<rparr>) =
       (Some ValueError_literal, ?ans,
        one_row_world\<lparr>stdin := [], stdout := [info 0 @ nl, prompt (Str ''a'')]\<rparr>)"
    using entry_stored_unchanged [of ?cols ?row "Str ''a''"
        "one_row_world\<lparr>stdin := [Entry (CHR 0x1C # ''5'')]\<rparr>"
        "CHR 0x1C # ''5''" "[]" 0 ?ans _ "[]"] g l py_int_separator
    by (simp add: one_row_world_def)
  have e: "iterate ?cols [(0, ?row)] ?ans (one_row_world\<lparr>stdin := [Entry (replicate 4301 CHR ''1'')]\<rparr>) =
       (Some ValueError_literal, ?ans,
        one_row_world\<lparr>stdin := [], stdout := [info 0 @ nl, prompt (Str ''a'')]\<rparr>)"
    using entry_stored_unchanged [of ?cols ?row "Str ''a''"
        "one_row_world\<lparr>stdin := [Entry (replicate 4301 CHR ''1'')]\<rparr>"
        "replicate 4301 CHR ''1''" "[]" 0 ?ans _ "[]"] g l py_int_4301
    by (simp add: one_row_world_def)
  from g l r1 r3 a b c d e py_int_minus_12 py_int_x py_int_2_63 py_int_separator py_int_4301
  show ?thesis by blast
qed

subsection \<open>The label column\<close>

text \<open>
  C4. The name of the label column is "test" followed by the decimal form of the column
  count minus 2, whatever the rows hold and whatever the operator enters: whenever a run
  writes the file, that name is in the header written, the header has one name more than
  before when the name is new and as many as before otherwise, and a new name is the last
  one. The decimal form is the one of \<^verbatim>\<open>str\<close>: for a number that is not negative, a
  non-empty string of digits with that value and no leading zero, and for a negative number
  a minus sign before the form of its absolute value.
\<close>

theorem label_column_name:
  "(overwrites (snd (run w)) \<noteq> overwrites w \<longrightarrow>
      (let h = header (experiment_csv w);
           name = ''test'' @ str_int (int (length h) - 2);
           written = header (experiment_csv (snd (run w)))
       in name \<in> set written
          \<and> length written = (if name \<in> set h then length h else Suc (length h))
          \<and> (name \<notin> set h \<longrightarrow> last written = name)))
   \<and> (0 \<le> n \<longrightarrow> str_int n \<noteq> [] \<and> set (str_int n) \<subseteq> set ''0123456789''
        \<and> foldl (\<lambda>a c. 10 * a + (of_char c - 48)) 0 (str_int n) = nat n
        \<and> (hd (str_int n) = CHR ''0'' \<longrightarrow> n = 0))
   \<and> (n < 0 \<longrightarrow> str_int n = CHR ''-'' # str_int (- n))"
proof -
  have "overwrites (snd (run w)) \<noteq> overwrites w \<longrightarrow>
      (let h = header (experiment_csv w);
           name = ''test'' @ str_int (int (length h) - 2);
           written = header (experiment_csv (snd (run w)))
       in name \<in> set written
          \<and> length written = (if name \<in> set h then length h else Suc (length h))
          \<and> (name \<notin> set h \<longrightarrow> last written = name))"
    using written_header [of w] unfolding Let_def by blast
  with str_int_decimal [of n] show ?thesis by blast
qed

theorem label_column_name_witness:
  "overwrites (snd (run full_world)) \<noteq> overwrites full_world
   \<and> ''test0'' \<in> set (header (experiment_csv (snd (run full_world))))
   \<and> length (header (experiment_csv (snd (run full_world)))) = 3
   \<and> last (header (experiment_csv (snd (run full_world)))) = ''test0''
   \<and> label_name \<lparr>columns = replicate 14 ''c'', rows = []\<rparr> = ''test12''
   \<and> label_name \<lparr>columns = [''text''], rows = []\<rparr> = ''test-1''
   \<and> str_int 12 = ''12''
   \<and> foldl (\<lambda>a c. 10 * a + (of_char c - 48)) 0 (str_int 12) = (12::nat)
   \<and> str_int (- 1) = CHR ''-'' # str_int 1"
proof -
  have "overwrites (snd (run full_world)) = Suc (overwrites full_world)"
    by (rule run_1000_shape) (simp_all add: full_world_def)
  then have h: "overwrites (snd (run full_world)) \<noteq> overwrites full_world" by simp
  have hd: "header (experiment_csv full_world) = [''id'', ''text'']" by (simp add: full_world_def)
  from h label_column_name [of full_world 12]
  have a: "''test0'' \<in> set (header (experiment_csv (snd (run full_world))))
   \<and> length (header (experiment_csv (snd (run full_world)))) = 3
   \<and> last (header (experiment_csv (snd (run full_world)))) = ''test0''
   \<and> foldl (\<lambda>a c. 10 * a + (of_char c - 48)) 0 (str_int 12) = (12::nat)"
    by (simp add: Let_def hd str_int_0)
  from label_column_name [of full_world "- 1"]
  have b: "str_int (- 1) = CHR ''-'' # str_int 1" by simp
  have c: "label_name \<lparr>columns = replicate 14 ''c'', rows = []\<rparr> = ''test12''"
    by (simp add: label_name_def str_int_12)
  have d: "label_name \<lparr>columns = [''text''], rows = []\<rparr> = ''test-1''"
    by (simp add: label_name_def str_int_neg1)
  from h a b c d str_int_12 show ?thesis by blast
qed

text \<open>
  C2, as stated, the saving block attaches the buffer as a new column on every path. On a
  file of 1000 rows whose three columns are id, text and test1 the computed name is test1:
  the run, ended by the end of the input at the first prompt, overwrites the file once,
  and the file still has three columns, the old content of test1 replaced by the buffer.
\<close>

theorem existing_column_replaced:
  "length (records (experiment_csv collision_world)) = 1000
   \<and> run collision_world =
     (Some EOFError,
      collision_world\<lparr>stdout := [info 0 @ nl, prompt (Str ''a'')],
        experiment_csv := \<lparr>header = [''id'', ''text'', ''test1''],
                            records = replicate 1000 [''1'', ''a'', ''-1'']\<rparr>,
        overwrites := 1\<rparr>)"
proof -
  let ?edf = "loaded (experiment_csv collision_world)"
  have rows: "rows ?edf = [Str ''1'', Str ''a'', Str ''0''] # replicate 999 [Str ''1'', Str ''a'', Str ''0'']"
    by (simp add: loaded_def collision_world_def parse_field_def na_values_def replicate_1000)
  have s: "session ?edf collision_world =
     (Some EOFError, np_full 1000 (- 1),
      collision_world\<lparr>stdout := stdout collision_world @ [info 0 @ nl, prompt (Str ''a'')]\<rparr>)"
    by (rule session_first_eof [OF rows]) (simp_all add: loaded_def collision_world_def getattr_def)
  have name: "label_name ?edf = ''test1''"
    by (simp add: label_name_def loaded_def collision_world_def str_int_1)
  have sv: "saved ?edf (np_full 1000 (- 1)) = \<lparr>header = [''id'', ''text'', ''test1''],
                            records = replicate 1000 [''1'', ''a'', ''-1'']\<rparr>"
    unfolding saved_def name
    by (simp add: loaded_def collision_world_def np_full_def parse_field_def na_values_def
        str_int_neg1 numeral_2_eq_2)
  have "run collision_world = (case session ?edf collision_world of
           (r, ans, w1) \<Rightarrow>
             (r, w1\<lparr>experiment_csv := saved ?edf ans,
                     overwrites := Suc (overwrites collision_world)\<rparr>))"
    by (rule run_1000) (simp_all add: collision_world_def)
  then show ?thesis
    unfolding s by (simp add: sv) (simp add: collision_world_def)
qed

text \<open>
  C2, amended: for a well-formed file with exactly 1000 rows, on every path out of the
  loop (all rows done, an exception in the loop, an interrupt that reaches the loop as
  \<^verbatim>\<open>KeyboardInterrupt\<close> at a prompt) the saving block runs once: the loop leaves the file
  untouched, the run returns the outcome of the loop, the file has been overwritten exactly
  once more, and its new content is the frame with the whole buffer set as the column named
  "test" followed by the column count minus 2, appended as the last column when the name
  is new and replacing the column of that name otherwise, with the column names as header
  and no column of row labels.
\<close>

theorem finalization_once:
  assumes "well_formed (experiment_csv w)"
    and "header (experiment_csv w) \<noteq> []"
    and "length (records (experiment_csv w)) = 1000"
  shows "let h = header (experiment_csv w);
             edf = \<lparr>columns = h, rows = map (map parse_field) (records (experiment_csv w))\<rparr>;
             name = ''test'' @ str_int (int (length h) - 2)
         in case session edf w of
              (r, ans, w1) \<Rightarrow>
                length ans = length (rows edf)
                \<and> experiment_csv w1 = experiment_csv w
                \<and> overwrites w1 = overwrites w
                \<and> run w =
                    (r, w1\<lparr>experiment_csv :=
                             (case get_loc h name of
                                None \<Rightarrow>
                                  \<lparr>header = h @ [name],
                                   records = map2 (\<lambda>row v. map render row @ [str_int v]) (rows edf) ans\<rparr>
                              | Some p \<Rightarrow>
                                  \<lparr>header = h,
                                   records = map2 (\<lambda>row v. (map render row)[p := str_int v]) (rows edf) ans\<rparr>),
                           overwrites := Suc (overwrites w)\<rparr>)"
proof -
  let ?edf = "loaded (experiment_csv w)"
  obtain r ans w1 where s: "session ?edf w = (r, ans, w1)" by (cases "session ?edf w")
  note fr = session_frame [OF s]
  have "run w = (r, w1\<lparr>experiment_csv := saved ?edf ans, overwrites := Suc (overwrites w)\<rparr>)"
    using run_1000 [OF assms(2,3)] s by simp
  with s fr assms(3) show ?thesis
    by (simp add: Let_def loaded_def saved_def label_name_def split: option.splits)
qed

theorem finalization_once_witness:
  "well_formed (experiment_csv full_world)
   \<and> header (experiment_csv full_world) \<noteq> []
   \<and> length (records (experiment_csv full_world)) = 1000
   \<and> run full_world =
     (Some KeyboardInterrupt,
      full_world\<lparr>stdin := [],
        stdout := [info 0 @ nl, prompt (Str ''a''), info 1 @ nl, prompt (Str ''a'')],
        experiment_csv := \<lparr>header = [''id'', ''text'', ''test0''],
          records = [''1'', ''a'', ''3''] # replicate 999 [''1'', ''a'', ''-1'']\<rparr>,
        overwrites := 1\<rparr>)"
proof -
  have h0: "well_formed (experiment_csv full_world)"
    by (simp add: full_world_def well_formed_def list_all_iff)
  have h1: "header (experiment_csv full_world) \<noteq> []" by (simp add: full_world_def)
  have h2: "length (records (experiment_csv full_world)) = 1000" by (simp add: full_world_def)
  let ?edf = "loaded (experiment_csv full_world)"
  let ?row = "[Str ''1'', Str ''a'']"
  have rows: "rows ?edf = ?row # ?row # replicate 998 ?row"
    using replicate_Suc [of 999 ?row] replicate_Suc [of 998 ?row]
    by (simp add: loaded_def full_world_def parse_field_def na_values_def)
  have cols: "columns ?edf = [''id'', ''text'']" by (simp add: loaded_def full_world_def)
  have py3: "py_int ''3'' = Some 3"
    by (simp add: py_int_def max_str_digits_def is_space_def py_digits_def is_digit_def digit_val_def)
  have "iterrows ?edf = enumerate 0 (rows ?edf)"
    by (simp add: iterrows_def enumerate_eq_zip)
  then have it: "iterrows ?edf = (0, ?row) # (1, ?row) # enumerate 2 (replicate 998 ?row)"
    by (simp add: rows numeral_2_eq_2)
  let ?w1 = "full_world\<lparr>stdin := [Interrupt],
      stdout := stdout full_world @ [info 0 @ nl, prompt (Str ''a'')]\<rparr>"
  have b0: "body [''id'', ''text''] 0 ?row (np_full 1000 (- 1)) full_world =
      (None, (np_full 1000 (- 1))[0 := 3], ?w1)"
    by (rule body_stores [OF _ _ _ py3])
      (simp_all add: getattr_def full_world_def np_full_def int64_range_def)
  have b1: "body [''id'', ''text''] 1 ?row ((np_full 1000 (- 1))[0 := 3]) ?w1 =
      (Some KeyboardInterrupt, (np_full 1000 (- 1))[0 := 3],
       ?w1\<lparr>stdin := [], stdout := stdout ?w1 @ [info 1 @ nl, prompt (Str ''a'')]\<rparr>)"
    by (simp add: body_def Let_def getattr_def input_def print_def)
  have s: "session ?edf full_world =
     (Some KeyboardInterrupt, (np_full 1000 (- 1))[0 := 3],
      ?w1\<lparr>stdin := [], stdout := stdout ?w1 @ [info 1 @ nl, prompt (Str ''a'')]\<rparr>)"
    by (simp add: session_def it cols b0 b1 [unfolded One_nat_def])
  have buf: "(np_full 1000 (- 1))[0 := 3] = 3 # replicate 999 (- 1)"
    using replicate_Suc [of 999 "- 1 :: int"] by (simp add: np_full_def)
  have str3: "str_int 3 = ''3''" by (simp add: str_int_def digits.simps digit_char_def)
  have recs: "map2 (\<lambda>row v. map render row @ [str_int v]) (rows ?edf) ((np_full 1000 (- 1))[0 := 3])
      = [''1'', ''a'', ''3''] # replicate 999 [''1'', ''a'', ''-1'']"
  proof -
    have "rows ?edf = ?row # replicate 999 ?row"
      using replicate_Suc [of 999 ?row]
      by (simp add: loaded_def full_world_def parse_field_def na_values_def)
    then show ?thesis unfolding buf by (simp add: str3 str_int_neg1)
  qed
  have name: "''test'' @ str_int (int (length (header (experiment_csv full_world))) - 2) = ''test0''"
    by (simp add: full_world_def str_int_0)
  have gl: "get_loc (header (experiment_csv full_world)) ''test0'' = None"
    by (simp add: full_world_def)
  from finalization_once [OF h0 h1 h2, unfolded Let_def, folded loaded_def]
  have "run full_world =
     (Some KeyboardInterrupt,
      (?w1\<lparr>stdin := [], stdout := stdout ?w1 @ [info 1 @ nl, prompt (Str ''a'')]\<rparr>)
        \<lparr>experiment_csv := \<lparr>header = header (experiment_csv full_world) @ [''test0''],
          records = [''1'', ''a'', ''3''] # replicate 999 [''1'', ''a'', ''-1'']\<rparr>,
        overwrites := Suc (overwrites full_world)\<rparr>)"
    unfolding s name gl by (simp add: recs)
  then have "run full_world =
     (Some KeyboardInterrupt,
      full_world\<lparr>stdin := [],
        stdout := [info 0 @ nl, prompt (Str ''a''), info 1 @ nl, prompt (Str ''a'')],
        experiment_csv := \<lparr>header = [''id'', ''text'', ''test0''],
          records = [''1'', ''a'', ''3''] # replicate 999 [''1'', ''a'', ''-1'']\<rparr>,
        overwrites := 1\<rparr>)"
    by (simp add: full_world_def)
  with h0 h1 h2 show ?thesis by blast
qed

text \<open>
  C10, as stated, two runs add one column each and the second never overwrites the label
  column of the first. On a file of 1000 rows with the columns id, text and test1 both runs
  compute the name test1: the first run, with the entry 3 and an interrupt, replaces the
  column test1 by its labels 3, -1, -1, ...; the second run, ended at its first prompt,
  replaces the same column again, and the label 3 of the first run is gone. The file has
  three columns after each run.
\<close>

theorem second_run_overwrites_first_label:
  "well_formed (experiment_csv relabel_world)
   \<and> length (records (experiment_csv relabel_world)) = 1000
   \<and> experiment_csv (snd (run relabel_world)) =
       \<lparr>header = [''id'', ''text'', ''test1''],
        records = [''7'', ''b'', ''3''] # replicate 999 [''7'', ''b'', ''-1'']\<rparr>
   \<and> experiment_csv (snd (run_twice [] relabel_world)) =
       \<lparr>header = [''id'', ''text'', ''test1''],
        records = replicate 1000 [''7'', ''b'', ''-1'']\<rparr>
   \<and> overwrites (snd (run_twice [] relabel_world)) = 2"
proof -
  let ?f0 = "experiment_csv relabel_world"
  let ?row = "[Str ''7'', Str ''b'', Str ''2'']"
  have wf: "well_formed ?f0"
    by (simp add: relabel_world_def well_formed_def list_all_iff)
  have h1: "header ?f0 \<noteq> []" by (simp add: relabel_world_def)
  have h2: "length (records ?f0) = 1000" by (simp add: relabel_world_def)
  have py3: "py_int ''3'' = Some 3"
    by (simp add: py_int_def max_str_digits_def is_space_def py_digits_def is_digit_def digit_val_def)
  have str3: "str_int 3 = ''3''" by (simp add: str_int_def digits.simps digit_char_def)
  have name0: "label_name (loaded ?f0) = ''test1''"
    by (simp add: label_name_loaded relabel_world_def str_int_1)
  have rows0: "rows (loaded ?f0) = ?row # replicate 999 ?row"
    using replicate_Suc [of 999 ?row]
    by (simp add: loaded_def relabel_world_def parse_field_def na_values_def)
  have cols0: "columns (loaded ?f0) = [''id'', ''text'', ''test1'']"
    by (simp add: loaded_def relabel_world_def)
  have first: "fst (run relabel_world) = Some KeyboardInterrupt
       \<and> experiment_csv (snd (run relabel_world)) =
           saved (loaded ?f0) (map (the \<circ> py_int) [''3''] @ replicate (1000 - length [''3'']) (- 1))
       \<and> overwrites (snd (run relabel_world)) = Suc (overwrites relabel_world)"
  proof (rule labels_saved_after_interrupt [OF h1 h2])
    show "\<forall>row \<in> set (rows (loaded ?f0)). \<exists>t. getattr (header ?f0) row ''text'' = Inr t"
      by (auto simp: loaded_def relabel_world_def getattr_def parse_field_def na_values_def)
    show "length [''3''] < 1000" by simp
    show "\<forall>val \<in> set [''3'']. \<exists>v. py_int val = Some v \<and> int64_range v"
      by (simp add: py3 int64_range_def)
    show "stdin relabel_world = map Entry [''3''] @ Interrupt # []"
      by (simp add: relabel_world_def)
  qed
  let ?f1 = "\<lparr>header = [''id'', ''text'', ''test1''],
        records = [''7'', ''b'', ''3''] # replicate 999 [''7'', ''b'', ''-1'']\<rparr>"
  have sv1: "saved (loaded ?f0) (3 # replicate 999 (- 1)) = ?f1"
    unfolding saved_def name0 cols0 rows0
    by (simp add: numeral_2_eq_2 str3 str_int_neg1)
  have f1: "experiment_csv (snd (run relabel_world)) = ?f1"
    using first sv1 by (simp add: py3)
  have ow1: "overwrites (snd (run relabel_world)) = 1"
    using first by (simp add: relabel_world_def)
  let ?w' = "(snd (run relabel_world))\<lparr>stdin := []\<rparr>"
  let ?row1 = "[Str ''7'', Str ''b'', Str ''3'']" and ?rown = "[Str ''7'', Str ''b'', Str ''-1'']"
  have h1': "header (experiment_csv ?w') \<noteq> []" by (simp add: f1)
  have h2': "length (records (experiment_csv ?w')) = 1000" by (simp add: f1)
  have rows1: "rows (loaded ?f1) = ?row1 # replicate 999 ?rown"
    by (simp add: loaded_def parse_field_def na_values_def)
  have cols1: "columns (loaded ?f1) = [''id'', ''text'', ''test1'']"
    by (simp add: loaded_def)
  have name1: "label_name (loaded ?f1) = ''test1''"
    by (simp add: label_name_loaded str_int_1)
  have s2: "session (loaded ?f1) ?w' =
     (Some EOFError, np_full 1000 (- 1),
      ?w'\<lparr>stdout := stdout ?w' @ [info 0 @ nl, prompt (Str ''b'')]\<rparr>)"
    by (rule session_first_eof [OF rows1]) (simp_all add: cols1 getattr_def)
  have buf: "np_full 1000 (- 1) = - 1 # replicate 999 (- 1)"
    using replicate_Suc [of 999 "- 1 :: int"] by (simp add: np_full_def)
  have sv2: "saved (loaded ?f1) (np_full 1000 (- 1)) =
      \<lparr>header = [''id'', ''text'', ''test1''], records = replicate 1000 [''7'', ''b'', ''-1'']\<rparr>"
    unfolding saved_def name1 cols1 rows1 buf
    using replicate_Suc [of 999 "[''7'', ''b'', ''-1'']"]
    by (simp add: numeral_2_eq_2 str_int_neg1)
  have "run ?w' = (case session (loaded (experiment_csv ?w')) ?w' of
           (r, ans, w1) \<Rightarrow>
             (r, w1\<lparr>experiment_csv := saved (loaded (experiment_csv ?w')) ans,
                     overwrites := Suc (overwrites ?w')\<rparr>))"
    by (rule run_1000 [OF h1' h2'])
  also have "experiment_csv ?w' = ?f1" by (simp add: f1)
  finally have "experiment_csv (snd (run ?w')) =
      \<lparr>header = [''id'', ''text'', ''test1''], records = replicate 1000 [''7'', ''b'', ''-1'']\<rparr>
    \<and> overwrites (snd (run ?w')) = 2"
    unfolding s2 by (simp add: sv2 ow1)
  then have "experiment_csv (snd (run_twice [] relabel_world)) =
       \<lparr>header = [''id'', ''text'', ''test1''], records = replicate 1000 [''7'', ''b'', ''-1'']\<rparr>
   \<and> overwrites (snd (run_twice [] relabel_world)) = 2"
    by (simp add: run_twice_def)
  with wf h2 f1 show ?thesis by blast
qed

text \<open>
  C10, amended: for a well-formed file with a header of k columns and exactly 1000 rows in
  which neither "test" followed by k - 2 nor "test" followed by k - 1 is a column name, two
  runs in succession add one column each: the first appends the column named with k - 2,
  the second appends a column with the different name made of k - 1, and the records of
  the second file are the records of the first, label column included, each extended by
  the second run's label.
\<close>

theorem second_run_appends_second_column:
  assumes "well_formed (experiment_csv w)"
    and "header (experiment_csv w) \<noteq> []"
    and "length (records (experiment_csv w)) = 1000"
    and "''test'' @ str_int (int (length (header (experiment_csv w))) - 2)
           \<notin> set (header (experiment_csv w))"
    and "''test'' @ str_int (int (length (header (experiment_csv w))) - 1)
           \<notin> set (header (experiment_csv w))"
  shows "header (experiment_csv (snd (run w))) =
           header (experiment_csv w) @ [''test'' @ str_int (int (length (header (experiment_csv w))) - 2)]
       \<and> header (experiment_csv (snd (run_twice evs w))) =
           header (experiment_csv w)
             @ [''test'' @ str_int (int (length (header (experiment_csv w))) - 2),
                ''test'' @ str_int (int (length (header (experiment_csv w))) - 1)]
       \<and> ''test'' @ str_int (int (length (header (experiment_csv w))) - 2)
           \<noteq> ''test'' @ str_int (int (length (header (experiment_csv w))) - 1)
       \<and> records (experiment_csv (snd (run_twice evs w))) =
           map2 (\<lambda>r v. r @ [str_int v]) (records (experiment_csv (snd (run w))))
             (fst (snd (session
                \<lparr>columns = header (experiment_csv (snd (run w))),
                 rows = map (map parse_field) (records (experiment_csv (snd (run w))))\<rparr>
                ((snd (run w))\<lparr>stdin := evs\<rparr>))))
       \<and> overwrites (snd (run_twice evs w)) = overwrites w + 2"
proof -
  have "str_int (int (length (header (experiment_csv w))) - 2)
          \<noteq> str_int (int (length (header (experiment_csv w))) - 1)"
    using str_int_inj [of "int (length (header (experiment_csv w))) - 2"
        "int (length (header (experiment_csv w))) - 1"] by auto
  then show ?thesis
    using run_twice_fresh(1) [OF assms(2-5)] run_twice_fresh(2) [OF assms(2-5), of evs]
      run_twice_fresh(3) [OF assms(2-5), of evs] run_twice_fresh(4) [OF assms(2-5), of evs]
    by simp
qed

theorem second_run_appends_second_column_witness:
  "well_formed (experiment_csv full_world)
   \<and> header (experiment_csv full_world) \<noteq> []
   \<and> length (records (experiment_csv full_world)) = 1000
   \<and> ''test'' @ str_int (int (length (header (experiment_csv full_world))) - 2)
           \<notin> set (header (experiment_csv full_world))
   \<and> ''test'' @ str_int (int (length (header (experiment_csv full_world))) - 1)
           \<notin> set (header (experiment_csv full_world))
   \<and> experiment_csv (snd (run full_world)) =
       \<lparr>header = [''id'', ''text'', ''test0''],
        records = [''1'', ''a'', ''3''] # replicate 999 [''1'', ''a'', ''-1'']\<rparr>
   \<and> experiment_csv (snd (run_twice [Entry ''4'', Interrupt] full_world)) =
       \<lparr>header = [''id'', ''text'', ''test0'', ''test1''],
        records = [''1'', ''a'', ''3'', ''4''] # replicate 999 [''1'', ''a'', ''-1'', ''-1'']\<rparr>
   \<and> overwrites (snd (run_twice [Entry ''4'', Interrupt] full_world)) = 2"
proof -
  let ?evs = "[Entry ''4'', Interrupt]"
  have h0: "well_formed (experiment_csv full_world)"
    by (simp add: full_world_def well_formed_def list_all_iff)
  have h1: "header (experiment_csv full_world) \<noteq> []" by (simp add: full_world_def)
  have h2: "length (records (experiment_csv full_world)) = 1000" by (simp add: full_world_def)
  have h3: "''test'' @ str_int (int (length (header (experiment_csv full_world))) - 2)
           \<notin> set (header (experiment_csv full_world))"
    by (simp add: full_world_def str_int_0)
  have h4: "''test'' @ str_int (int (length (header (experiment_csv full_world))) - 1)
           \<notin> set (header (experiment_csv full_world))"
    by (simp add: full_world_def str_int_1)
  have hd: "header (experiment_csv full_world) = [''id'', ''text'']" by (simp add: full_world_def)
  have ow: "overwrites full_world = 0" by (simp add: full_world_def)
  let ?f1 = "\<lparr>header = [''id'', ''text'', ''test0''],
        records = [''1'', ''a'', ''3''] # replicate 999 [''1'', ''a'', ''-1'']\<rparr>"
  have f1: "experiment_csv (snd (run full_world)) = ?f1"
    by (simp add: full_world_saved)
  let ?w' = "(snd (run full_world))\<lparr>stdin := ?evs\<rparr>"
  have py4: "py_int ''4'' = Some 4"
    by (simp add: py_int_def max_str_digits_def is_space_def py_digits_def is_digit_def digit_val_def)
  have ans2: "fst (snd (session (loaded ?f1) ?w')) =
      map (the \<circ> py_int) [''4''] @ replicate (1000 - length [''4'']) (- 1)"
  proof -
    have "fst (session (loaded ?f1) ?w') = Some KeyboardInterrupt
       \<and> fst (snd (session (loaded ?f1) ?w')) =
           map (the \<circ> py_int) [''4''] @ replicate (1000 - length [''4'']) (- 1)"
    proof (rule session_entries_then_interrupt)
      show "\<forall>row \<in> set (rows (loaded ?f1)). \<exists>t. getattr (columns (loaded ?f1)) row ''text'' = Inr t"
        by (auto simp: loaded_def getattr_def)
      show "length [''4''] < length (rows (loaded ?f1))" by (simp add: loaded_def)
      show "length [''4''] < 1000" by simp
      show "\<forall>val \<in> set [''4'']. \<exists>v. py_int val = Some v \<and> int64_range v"
        by (simp add: py4 int64_range_def)
      show "stdin ?w' = map Entry [''4''] @ Interrupt # []" by simp
    qed
    then show ?thesis by simp
  qed
  then have buf2: "fst (snd (session (loaded ?f1) ?w')) = 4 # replicate 999 (- 1)"
    by (simp add: py4)
  have str4: "str_int 4 = ''4''" by (simp add: str_int_def digits.simps digit_char_def)
  from second_run_appends_second_column [OF h0 h1 h2 h3 h4, of ?evs, folded loaded_def]
  have "header (experiment_csv (snd (run_twice ?evs full_world))) = [''id'', ''text'', ''test0'', ''test1'']
    \<and> records (experiment_csv (snd (run_twice ?evs full_world))) =
        [''1'', ''a'', ''3'', ''4''] # replicate 999 [''1'', ''a'', ''-1'', ''-1'']
    \<and> overwrites (snd (run_twice ?evs full_world)) = 2"
    unfolding f1 buf2 by (simp add: hd ow str_int_0 str_int_1 str4 str_int_neg1)
  then have "experiment_csv (snd (run_twice ?evs full_world)) =
       \<lparr>header = [''id'', ''text'', ''test0'', ''test1''],
        records = [''1'', ''a'', ''3'', ''4''] # replicate 999 [''1'', ''a'', ''-1'', ''-1'']\<rparr>
     \<and> overwrites (snd (run_twice ?evs full_world)) = 2"
    by (cases "experiment_csv (snd (run_twice ?evs full_world))") simp
  with h0 h1 h2 h3 h4 f1 show ?thesis by blast
qed

subsection \<open>The scenarios of the specification on files that do not have 1000 rows\<close>

text \<open>
  C6. The specification expects that a file of 3 rows with texts a, b, c and the columns
  id and text, with the operator entering 1, 3, 0, is saved with 3 rows and a new column
  test0 holding 1, 3, 0. The script does read the three entries into the first three places
  of its buffer and does compute the name test0, but setting the 1000-entry buffer as a
  column of the 3-row frame raises the length error: the run ends with that error and the
  file is never written.
\<close>

theorem abc_scenario:
  "read_csv (experiment_csv abc_world) = Inr abc_frame
   \<and> fst (session abc_frame abc_world) = None
   \<and> fst (snd (session abc_frame abc_world)) = (np_full 1000 (- 1))[0 := 1, 1 := 3, 2 := 0]
   \<and> label_name abc_frame = ''test0''
   \<and> fst (run abc_world) = Some ValueError_length
   \<and> experiment_csv (snd (run abc_world)) = experiment_csv abc_world
   \<and> overwrites (snd (run abc_world)) = 0"
proof -
  have "label_name abc_frame = ''test0''"
    by (simp add: label_name_def abc_frame_def str_int_0)
  moreover have "fst (run abc_world) = Some ValueError_length
   \<and> experiment_csv (snd (run abc_world)) = experiment_csv abc_world
   \<and> overwrites (snd (run abc_world)) = overwrites abc_world"
    by (rule run_mismatch) (simp_all add: abc_world_def)
  moreover have "overwrites abc_world = 0" by (simp add: abc_world_def)
  ultimately show ?thesis using abc_read abc_session by simp
qed

text \<open>
  C1. The specification expects that a file of 5 rows, with the operator entering 2 and 4
  and then interrupting, is saved with the label column 2, 4, -1, -1, -1. The script has
  2 and 4 in its buffer when the interrupt arrives, and the block that should save them
  raises the length error: nothing is written.
\<close>

theorem five_rows_interrupted:
  "read_csv (experiment_csv five_rows_world) = Inr five_rows_frame
   \<and> fst (session five_rows_frame five_rows_world) = Some KeyboardInterrupt
   \<and> fst (snd (session five_rows_frame five_rows_world)) = (np_full 1000 (- 1))[0 := 2, 1 := 4]
   \<and> fst (run five_rows_world) = Some ValueError_length
   \<and> experiment_csv (snd (run five_rows_world)) = experiment_csv five_rows_world
   \<and> overwrites (snd (run five_rows_world)) = 0"
proof -
  have "read_csv (experiment_csv five_rows_world) = Inr five_rows_frame"
    by (simp add: five_rows_world_def five_rows_frame_def read_csv_def parse_field_def na_values_def)
  moreover have "fst (session five_rows_frame five_rows_world) = Some KeyboardInterrupt
   \<and> fst (snd (session five_rows_frame five_rows_world)) = (np_full 1000 (- 1))[0 := 2, 1 := 4]"
    by (simp add: five_rows_world_def five_rows_frame_def eval_defs)
  moreover have "fst (run five_rows_world) = Some ValueError_length
   \<and> experiment_csv (snd (run five_rows_world)) = experiment_csv five_rows_world
   \<and> overwrites (snd (run five_rows_world)) = overwrites five_rows_world"
    by (rule run_mismatch) (simp_all add: five_rows_world_def)
  moreover have "overwrites five_rows_world = 0" by (simp add: five_rows_world_def)
  ultimately show ?thesis by simp
qed

text \<open>
  C5. The specification expects that a non-numeric entry on the first row ends the run with
  the conversion error after the file has been saved with a label column of -1. On a file
  of 3 rows the conversion error of the loop is replaced by the length error of the saving
  block, and the file is not written.
\<close>

theorem nonnumeric_first_row:
  "read_csv (experiment_csv nonnumeric_world) = Inr abc_frame
   \<and> fst (session abc_frame nonnumeric_world) = Some ValueError_literal
   \<and> fst (snd (session abc_frame nonnumeric_world)) = np_full 1000 (- 1)
   \<and> fst (run nonnumeric_world) = Some ValueError_length
   \<and> experiment_csv (snd (run nonnumeric_world)) = experiment_csv nonnumeric_world
   \<and> overwrites (snd (run nonnumeric_world)) = 0"
proof -
  have "read_csv (experiment_csv nonnumeric_world) = Inr abc_frame"
    by (simp add: nonnumeric_world_def abc_frame_def read_csv_def parse_field_def na_values_def)
  moreover have "fst (session abc_frame nonnumeric_world) = Some ValueError_literal
   \<and> fst (snd (session abc_frame nonnumeric_world)) = np_full 1000 (- 1)"
    by (simp add: nonnumeric_world_def abc_frame_def eval_defs)
  moreover have "fst (run nonnumeric_world) = Some ValueError_length
   \<and> experiment_csv (snd (run nonnumeric_world)) = experiment_csv nonnumeric_world
   \<and> overwrites (snd (run nonnumeric_world)) = overwrites nonnumeric_world"
    by (rule run_mismatch) (simp_all add: nonnumeric_world_def)
  moreover have "overwrites nonnumeric_world = 0" by (simp add: nonnumeric_world_def)
  ultimately show ?thesis by simp
qed


subsection \<open>When the saving block fails\<close>




end
